theory Spec2Isabelle
  imports Main "HOL-Library.AList" "HOL-Library.Multiset"
begin

section \<open>Spreadsheet cells, exceptions and the external framework\<close>

text \<open>
  The module \<^verbatim>\<open>src/utils/sheets_parser.py\<close> drives the third-party library
  \<^verbatim>\<open>lca_algebraic\<close> (imported as \<^verbatim>\<open>agb\<close>) from rows of pandas data frames.

  A cell of a data frame is either missing (\<^verbatim>\<open>pd.isna\<close> holds) or holds a value.
  A cell whose content the code inspects with \<^verbatim>\<open>isinstance(_, str)\<close> holds a
  \<open>pyval\<close>: a string or some other Python object.
\<close>

datatype 'a cell = NaN | Val 'a

datatype 'v pyval = PStr string | PObj 'v

fun notna :: "'a cell \<Rightarrow> bool" where
  "notna NaN = False"
| "notna (Val _) = True"

fun isna :: "'a cell \<Rightarrow> bool" where
  "isna NaN = True"
| "isna (Val _) = False"

text \<open>
  \<^verbatim>\<open>str(cell)\<close> for a textual cell: a missing cell is the float \<^verbatim>\<open>nan\<close>, whose
  \<^verbatim>\<open>str\<close> is \<^verbatim>\<open>'nan'\<close>. A numeric cell is represented by its rendering.
\<close>

fun str_cell :: "string cell \<Rightarrow> string" where
  "str_cell NaN = ''nan''"
| "str_cell (Val s) = s"

text \<open>
  Every exception of the model is an instance of Python's \<^verbatim>\<open>Exception\<close>, which is
  what the handlers \<^verbatim>\<open>except Exception as e\<close> catch.
\<close>

datatype exn =
    KeyError string
  | ValueError string
  | AttributeError string
  | NameError string
  | FrameworkError string

text \<open>The keyword arguments of \<^verbatim>\<open>agb.newFloatParam\<close>.\<close>

record 'v float_args =
  fa_default :: "'v pyval cell"
  fa_min :: "'v pyval cell"
  fa_max :: "'v pyval cell"
  fa_std :: "'v pyval cell"
  fa_distrib :: "'v option"
  fa_description :: "string cell"
  fa_label :: "string cell"

text \<open>
  The library is not part of the repository: it is a parameter of the model, a record
  of functions over an abstract framework state \<open>'fw\<close>, with activity handles \<open>'act\<close>
  and Python values \<open>'v\<close> (parameter handles, amounts). A lookup reads the state and
  either raises or returns a Python value that may be \<^verbatim>\<open>None\<close>; a command raises or
  returns, and yields the next state in both cases. \<^verbatim>\<open>eval\<close>, the truth value and
  the dictionary comprehension used for enum parameters, and the string methods
  \<^verbatim>\<open>str.strip\<close>, \<^verbatim>\<open>str.lower\<close> and \<^verbatim>\<open>str.upper\<close> are Python's own, and are
  parameters too: what they do to a string (which characters are white space, which
  letters have a lower case) is fixed by Python and Unicode, not by this module.
\<close>

record ('fw, 'act, 'v) agb =
  findActivity :: "'fw \<Rightarrow> string \<Rightarrow> string \<Rightarrow> exn + 'act option"
  findTechAct :: "'fw \<Rightarrow> string cell \<Rightarrow> string cell option \<Rightarrow> exn + 'act option"
  newFloatParam :: "'fw \<Rightarrow> string \<Rightarrow> 'v float_args \<Rightarrow> (exn + 'v) \<times> 'fw"
  newBoolParam :: "'fw \<Rightarrow> string \<Rightarrow> 'v pyval cell \<Rightarrow> (exn + 'v) \<times> 'fw"
  newEnumParam ::
    "'fw \<Rightarrow> string \<Rightarrow> 'v pyval cell \<Rightarrow> 'v pyval cell \<Rightarrow> string cell \<Rightarrow> (exn + 'v) \<times> 'fw"
  newActivity ::
    "'fw \<Rightarrow> string \<Rightarrow> string cell \<Rightarrow> string cell \<Rightarrow> ('act \<times> 'v) list \<Rightarrow> exn option \<times> 'fw"
  copyActivity :: "'fw \<Rightarrow> string \<Rightarrow> 'act \<Rightarrow> string \<Rightarrow> (exn + 'act) \<times> 'fw"
  updateExchanges :: "'fw \<Rightarrow> 'act \<Rightarrow> (string cell \<times> 'v) list \<Rightarrow> exn option \<times> 'fw"
  distributionType :: "string \<Rightarrow> 'v option"
  eval_globals :: "string \<Rightarrow> exn + 'v"
  eval_in :: "string \<Rightarrow> (string \<rightharpoonup> 'v) \<Rightarrow> exn + 'v"
  truthy :: "'v \<Rightarrow> bool"
  zip_dict :: "'v pyval cell \<Rightarrow> 'v \<Rightarrow> exn + 'v"
  str_strip :: "string \<Rightarrow> string"
  str_lower :: "string \<Rightarrow> string"
  str_upper :: "string \<Rightarrow> string"

text \<open>
  What a run lets the outside see, in order: the lines it prints and the calls it makes
  to the library. Each \<^verbatim>\<open>print\<close> of the source is one constructor, carrying the values
  its f-string interpolates.
\<close>

datatype ('act, 'v) event =
    Call_findActivity string string
  | Call_findTechAct "string cell" "string cell option"
  | Call_newFloatParam string "'v float_args"
  | Call_newBoolParam string "'v pyval cell"
  | Call_newEnumParam string "'v pyval cell" "'v pyval cell" "string cell"
  | Call_newActivity string "string cell" "string cell" "('act \<times> 'v) list"
  | Call_copyActivity string 'act string
  | Call_updateExchanges 'act "(string cell \<times> 'v) list"
  | Failed_modified string string exn
  | Failed_custom string string exn
  | Failed_ecoinvent "string cell" "string cell" exn
  | Skipping_param_row nat
  | Parameter_created string
  | Error_creating_parameter string exn
  | Processing_sheet string
  | Skipping_row_nan nat string
  | Skipping_row_unresolved nat string
  | Error_parameter_expression nat exn
  | Error_creating_custom string exn
  | Skipping_copy string
  | Copied_activity string
  | Evaluated_amount "string cell" 'v
  | Error_evaluating string "string cell" exn
  | Updated_exchanges string
  | Error_updating string exn
  | Error_copying_or_updating string exn
  | Finished_all
  | Stopping_at nat
  | Skipping_creation "string cell"
  | Error_foreground_expression "string cell" exn
  | Activity_created "string cell"
  | Error_creating_activity "string cell" exn

section \<open>The activity resolver\<close>

text \<open>
  \<^verbatim>\<open>find_activity\<close>, lines 10 to 31. Each of the first two stages either returns
  (\<open>Some r\<close>, with \<open>r\<close> the value returned) or falls through (\<open>None\<close>).
\<close>

definition try_modified ::
  "('fw, 'act, 'v) agb \<Rightarrow> 'fw \<Rightarrow> string cell \<Rightarrow> string \<Rightarrow>
   'act option option \<times> ('act, 'v) event list" where
  "try_modified env fw modified_activity_name custom_db =
     (case modified_activity_name of
        NaN \<Rightarrow> (None, [])
      | Val m \<Rightarrow>
          (case findActivity env fw m custom_db of
             Inr modified_activity \<Rightarrow> (Some modified_activity, [Call_findActivity m custom_db])
           | Inl e \<Rightarrow> (None, [Call_findActivity m custom_db, Failed_modified m custom_db e])))"

definition try_custom ::
  "('fw, 'act, 'v) agb \<Rightarrow> 'fw \<Rightarrow> string cell \<Rightarrow> string \<Rightarrow>
   'act option option \<times> ('act, 'v) event list" where
  "try_custom env fw custom_process_name custom_db =
     (case custom_process_name of
        NaN \<Rightarrow> (None, [])
      | Val c \<Rightarrow>
          (case findActivity env fw c custom_db of
             Inr custom_process \<Rightarrow> (Some custom_process, [Call_findActivity c custom_db])
           | Inl e \<Rightarrow> (None, [Call_findActivity c custom_db, Failed_custom c custom_db e])))"

definition base_lookup ::
  "('fw, 'act, 'v) agb \<Rightarrow> 'fw \<Rightarrow> string cell \<Rightarrow> string cell \<Rightarrow>
   'act option \<times> ('act, 'v) event list" where
  "base_lookup env fw ei_activity_name location =
     (let arg = (if notna location then Some location else None) in
      case findTechAct env fw ei_activity_name arg of
        Inr r \<Rightarrow> (r, [Call_findTechAct ei_activity_name arg])
      | Inl e \<Rightarrow>
          (None, [Call_findTechAct ei_activity_name arg,
                  Failed_ecoinvent ei_activity_name location e]))"

definition find_activity ::
  "('fw, 'act, 'v) agb \<Rightarrow> 'fw \<Rightarrow> string cell \<Rightarrow> string cell \<Rightarrow> string cell \<Rightarrow>
   string cell \<Rightarrow> string \<Rightarrow> 'act option \<times> ('act, 'v) event list" where
  "find_activity env fw ei_activity_name location custom_process_name
       modified_activity_name custom_db =
     (case try_modified env fw modified_activity_name custom_db of
        (Some r, t1) \<Rightarrow> (r, t1)
      | (None, t1) \<Rightarrow>
          (case try_custom env fw custom_process_name custom_db of
             (Some r, t2) \<Rightarrow> (r, t1 @ t2)
           | (None, t2) \<Rightarrow>
               (case base_lookup env fw ei_activity_name location of
                  (r, t3) \<Rightarrow> (r, t1 @ t2 @ t3))))"

section \<open>The parameter builder\<close>

text \<open>A row of a parameter sheet, with the columns the builder reads.\<close>

record 'v param_row =
  pr_ei_activity_name :: "string cell"
  pr_parameter_number :: "string cell"
  pr_type :: "string cell"
  pr_default :: "'v pyval cell"
  pr_min :: "'v pyval cell"
  pr_max :: "'v pyval cell"
  pr_std :: "'v pyval cell"
  pr_distrib :: "string cell"
  pr_values :: "'v pyval cell"
  pr_weights :: "'v pyval cell"
  pr_description :: "string cell"
  pr_label :: "string cell"

text \<open>
  Lines 71 to 75: the values of an enum parameter. A string cell is evaluated, anything
  else is taken as it is; weights are evaluated only from a string, and a true weights
  value zips the two into a dictionary. Each step may raise.
\<close>

definition enum_values :: "('fw, 'act, 'v) agb \<Rightarrow> 'v param_row \<Rightarrow> exn + 'v pyval cell" where
  "enum_values env row =
     (case (case pr_values row of
              Val (PStr s) \<Rightarrow>
                (case eval_globals env s of Inl e \<Rightarrow> Inl e | Inr v \<Rightarrow> Inr (Val (PObj v)))
            | c \<Rightarrow> Inr c) of
        Inl e \<Rightarrow> Inl e
      | Inr vals \<Rightarrow>
          (case (case pr_weights row of
                   Val (PStr s) \<Rightarrow>
                     (case eval_globals env s of Inl e \<Rightarrow> Inl e | Inr w \<Rightarrow> Inr (Some w))
                 | _ \<Rightarrow> Inr None) of
             Inl e \<Rightarrow> Inl e
           | Inr None \<Rightarrow> Inr vals
           | Inr (Some w) \<Rightarrow>
               (if truthy env w
                then (case zip_dict env vals w of
                        Inl e \<Rightarrow> Inl e
                      | Inr d \<Rightarrow> Inr (Val (PObj d)))
                else Inr vals)))"

text \<open>
  Lines 54 to 84, the part of the \<^verbatim>\<open>try\<close> block that makes the parameter: the
  result is the exception it raises or the handle the library returns, the next
  framework state, and the calls made. In the float branch \<^verbatim>\<open>row["Distrib"].upper()\<close>
  raises on a missing cell (a float has no \<^verbatim>\<open>upper\<close>) before the library is called.
\<close>

definition create_param ::
  "('fw, 'act, 'v) agb \<Rightarrow> 'fw \<Rightarrow> string \<Rightarrow> string \<Rightarrow> 'v param_row \<Rightarrow>
   (exn + 'v) \<times> 'fw \<times> ('act, 'v) event list" where
  "create_param env fw param_name param_type row =
     (if param_type = ''float'' then
        (case pr_distrib row of
           NaN \<Rightarrow> (Inl (AttributeError ''upper''), fw, [])
         | Val d \<Rightarrow>
             (let args = \<lparr> fa_default = pr_default row, fa_min = pr_min row,
                           fa_max = pr_max row, fa_std = pr_std row,
                           fa_distrib = distributionType env (str_upper env d),
                           fa_description = pr_description row, fa_label = pr_label row \<rparr>
              in case newFloatParam env fw param_name args of
                   (r, fw') \<Rightarrow> (r, fw', [Call_newFloatParam param_name args])))
      else if param_type = ''bool'' then
        (case newBoolParam env fw param_name (pr_default row) of
           (r, fw') \<Rightarrow> (r, fw', [Call_newBoolParam param_name (pr_default row)]))
      else if param_type = ''enum'' then
        (case enum_values env row of
           Inl e \<Rightarrow> (Inl e, fw, [])
         | Inr vals \<Rightarrow>
             (case newEnumParam env fw param_name vals (pr_default row) (pr_description row) of
                (r, fw') \<Rightarrow>
                  (r, fw', [Call_newEnumParam param_name vals (pr_default row)
                              (pr_description row)])))
      else (Inl (ValueError (''Unsupported parameter type: '' @ param_type)), fw, []))"

text \<open>
  Lines 46 to 90 for one row that is not the terminator: the registry is assigned only
  after the parameter was made, and an exception of the \<^verbatim>\<open>try\<close> block is printed.
\<close>

definition param_name_of :: "string \<Rightarrow> 'v param_row \<Rightarrow> string" where
  "param_name_of sheet_name row = sheet_name @ ''_'' @ str_cell (pr_parameter_number row)"

definition param_type_of :: "('fw, 'act, 'v) agb \<Rightarrow> 'v param_row \<Rightarrow> string" where
  "param_type_of env row = str_lower env (str_strip env (str_cell (pr_type row)))"

definition param_step ::
  "('fw, 'act, 'v) agb \<Rightarrow> string \<Rightarrow> 'v param_row \<Rightarrow> (string \<rightharpoonup> 'v) \<Rightarrow> 'fw \<Rightarrow>
   (string \<rightharpoonup> 'v) \<times> 'fw \<times> ('act, 'v) event list" where
  "param_step env sheet_name row parameter_registry fw =
     (let param_name = param_name_of sheet_name row;
          param_type = param_type_of env row
      in case create_param env fw param_name param_type row of
           (Inr param, fw', t) \<Rightarrow>
             (parameter_registry(param_name \<mapsto> param), fw', t @ [Parameter_created param_name])
         | (Inl e, fw', t) \<Rightarrow>
             (parameter_registry, fw', t @ [Error_creating_parameter param_name e]))"

text \<open>The loop of lines 45 to 90 over \<^verbatim>\<open>iterrows()\<close>, which yields index and row.\<close>

fun process_rows ::
  "('fw, 'act, 'v) agb \<Rightarrow> string \<Rightarrow> (nat \<times> 'v param_row) list \<Rightarrow> (string \<rightharpoonup> 'v) \<Rightarrow> 'fw \<Rightarrow>
   (string \<rightharpoonup> 'v) \<times> 'fw \<times> ('act, 'v) event list" where
  "process_rows env sheet_name [] parameter_registry fw = (parameter_registry, fw, [])"
| "process_rows env sheet_name ((index, row) # rest) parameter_registry fw =
     (if isna (pr_ei_activity_name row)
      then (parameter_registry, fw, [Skipping_param_row index])
      else (case param_step env sheet_name row parameter_registry fw of
              (registry', fw', t) \<Rightarrow>
                (case process_rows env sheet_name rest registry' fw' of
                   (registry'', fw'', t') \<Rightarrow> (registry'', fw'', t @ t'))))"

text \<open>
  Line 43 rewrites the column \<^verbatim>\<open>Type\<close> as stripped, lower-cased strings
  (\<^verbatim>\<open>astype(str)\<close> turns a missing cell into \<^verbatim>\<open>'nan'\<close>); line 47 strips and
  lower-cases the cell again.
\<close>

definition normalise_type :: "('fw, 'act, 'v) agb \<Rightarrow> 'v param_row \<Rightarrow> 'v param_row" where
  "normalise_type env row =
     row\<lparr> pr_type := Val (str_lower env (str_strip env (str_cell (pr_type row)))) \<rparr>"

text \<open>The type tag that line 47 computes from the column as line 43 rewrote it.\<close>

definition type_tag :: "('fw, 'act, 'v) agb \<Rightarrow> 'v param_row \<Rightarrow> string" where
  "type_tag env row = param_type_of env (normalise_type env row)"

definition process_parameters ::
  "('fw, 'act, 'v) agb \<Rightarrow> 'fw \<Rightarrow> (nat \<times> 'v param_row) list \<Rightarrow> (string \<rightharpoonup> 'v) \<Rightarrow> string \<Rightarrow>
   (string \<rightharpoonup> 'v) \<times> 'fw \<times> ('act, 'v) event list" where
  "process_parameters env fw params_df parameter_registry sheet_name =
     process_rows env sheet_name
       (map (\<lambda>(index, row). (index, normalise_type env row)) params_df)
       parameter_registry fw"

section \<open>The custom and modified activity builder\<close>

record act_row =
  r_ei_activity_name :: "string cell"
  r_loc :: "string cell"
  r_parameter_number :: "string cell"
  r_lca_algebraic_name :: "string cell"
  r_custom_process_name :: "string cell"
  r_modified_process_name :: "string cell"

record meta_row =
  m_priority :: int
  m_type :: "string cell"
  m_location :: "string cell"
  m_unit :: "string cell"
  m_original_ei_activity_name :: "string cell"
  m_original_ei_activity_location :: "string cell"

definition parameter_expression_of :: "string \<Rightarrow> act_row \<Rightarrow> string" where
  "parameter_expression_of sheet_name row =
     sheet_name @ ''_'' @ str_cell (r_parameter_number row)"

text \<open>
  Lines 139 to 142. A Python dictionary keeps the order of insertion: an association
  list whose update replaces in place and appends a new key.
\<close>

definition accumulate :: "'act \<Rightarrow> 'v::plus \<Rightarrow> ('act \<times> 'v) list \<Rightarrow> ('act \<times> 'v) list" where
  "accumulate ei_activity parameter_value accumulated_exchanges =
     (case map_of accumulated_exchanges ei_activity of
        Some old \<Rightarrow> AList.update ei_activity (old + parameter_value) accumulated_exchanges
      | None \<Rightarrow> AList.update ei_activity parameter_value accumulated_exchanges)"

text \<open>Lines 120 to 145 for one row of a custom sheet that is not the terminator.\<close>

definition custom_step ::
  "('fw, 'act, 'v::plus) agb \<Rightarrow> 'fw \<Rightarrow> string \<Rightarrow> (string \<rightharpoonup> 'v) \<Rightarrow> string \<Rightarrow> nat \<Rightarrow> act_row \<Rightarrow>
   ('act \<times> 'v) list \<Rightarrow> ('act \<times> 'v) list \<times> ('act, 'v) event list" where
  "custom_step env fw OS_database parameter_registry sheet_name index row accumulated_exchanges =
     (case find_activity env fw (r_ei_activity_name row) (r_loc row) (r_custom_process_name row)
             (r_modified_process_name row) OS_database of
        (None, t) \<Rightarrow> (accumulated_exchanges, t @ [Skipping_row_unresolved index sheet_name])
      | (Some ei_activity, t) \<Rightarrow>
          (case eval_in env (parameter_expression_of sheet_name row) parameter_registry of
             Inr parameter_value \<Rightarrow>
               (accumulate ei_activity parameter_value accumulated_exchanges, t)
           | Inl e \<Rightarrow> (accumulated_exchanges, t @ [Error_parameter_expression index e])))"

fun custom_rows ::
  "('fw, 'act, 'v::plus) agb \<Rightarrow> 'fw \<Rightarrow> string \<Rightarrow> (string \<rightharpoonup> 'v) \<Rightarrow> string \<Rightarrow>
   (nat \<times> act_row) list \<Rightarrow> ('act \<times> 'v) list \<Rightarrow> ('act \<times> 'v) list \<times> ('act, 'v) event list" where
  "custom_rows env fw OS_database parameter_registry sheet_name [] accumulated_exchanges =
     (accumulated_exchanges, [])"
| "custom_rows env fw OS_database parameter_registry sheet_name ((index, row) # rest)
       accumulated_exchanges =
     (if isna (r_ei_activity_name row)
      then (accumulated_exchanges, [Skipping_row_nan index sheet_name])
      else (case custom_step env fw OS_database parameter_registry sheet_name index row
                   accumulated_exchanges of
              (acc', t) \<Rightarrow>
                (case custom_rows env fw OS_database parameter_registry sheet_name rest acc' of
                   (acc'', t') \<Rightarrow> (acc'', t @ t'))))"

text \<open>Lines 109 to 151: one custom sheet.\<close>

definition custom_sheet ::
  "('fw, 'act, 'v::plus) agb \<Rightarrow> 'fw \<Rightarrow> string \<Rightarrow> (string \<rightharpoonup> 'v) \<Rightarrow> string \<Rightarrow> meta_row \<Rightarrow>
   (nat \<times> act_row) list \<Rightarrow> 'fw \<times> ('act, 'v) event list" where
  "custom_sheet env fw OS_database parameter_registry sheet_name meta sheet_df =
     (case custom_rows env fw OS_database parameter_registry sheet_name sheet_df [] of
        (accumulated_exchanges, t) \<Rightarrow>
          (case newActivity env fw OS_database (Val sheet_name) (m_unit meta)
                  accumulated_exchanges of
             (None, fw') \<Rightarrow>
               (fw', [Processing_sheet sheet_name] @ t
                     @ [Call_newActivity OS_database (Val sheet_name) (m_unit meta)
                          accumulated_exchanges])
           | (Some e, fw') \<Rightarrow>
               (fw', [Processing_sheet sheet_name] @ t
                     @ [Call_newActivity OS_database (Val sheet_name) (m_unit meta)
                          accumulated_exchanges,
                        Error_creating_custom sheet_name e])))"

text \<open>
  Lines 172 to 182: the rows of a modified sheet. The loop has no test of
  \<^verbatim>\<open>EI activity name\<close>: every row is evaluated, and the dictionary is keyed by the cell.
\<close>

fun modified_rows ::
  "('fw, 'act, 'v) agb \<Rightarrow> (string \<rightharpoonup> 'v) \<Rightarrow> string \<Rightarrow> (nat \<times> act_row) list \<Rightarrow>
   (string cell \<times> 'v) list \<Rightarrow> (string cell \<times> 'v) list \<times> ('act, 'v) event list" where
  "modified_rows env parameter_registry modified_activity_name [] exchanges_dict =
     (exchanges_dict, [])"
| "modified_rows env parameter_registry modified_activity_name ((idx, sheet_row) # rest)
       exchanges_dict =
     (let ei_activity_name_TBM = r_ei_activity_name sheet_row;
          parameter_expression_TBM = parameter_expression_of modified_activity_name sheet_row
      in case eval_in env parameter_expression_TBM parameter_registry of
           Inr amount \<Rightarrow>
             (case modified_rows env parameter_registry modified_activity_name rest
                     (AList.update ei_activity_name_TBM amount exchanges_dict) of
                (d, t') \<Rightarrow> (d, Evaluated_amount ei_activity_name_TBM amount # t'))
         | Inl e \<Rightarrow>
             (case modified_rows env parameter_registry modified_activity_name rest
                     exchanges_dict of
                (d, t') \<Rightarrow>
                  (d, Error_evaluating parameter_expression_TBM ei_activity_name_TBM e # t')))"

text \<open>
  Lines 154 to 192: one modified sheet. Everything is inside the outer \<^verbatim>\<open>try\<close>, also
  the second read of the sheet from the dictionary of data frames (line 168).
\<close>

definition modified_sheet ::
  "('fw, 'act, 'v) agb \<Rightarrow> 'fw \<Rightarrow> string \<Rightarrow> (string \<rightharpoonup> 'v) \<Rightarrow> string \<Rightarrow> meta_row \<Rightarrow>
   (string \<rightharpoonup> (nat \<times> act_row) list) \<Rightarrow> 'fw \<times> ('act, 'v) event list" where
  "modified_sheet env fw OS_database parameter_registry modified_activity_name meta
       OS_database_dataframes =
     (let find = Call_findTechAct (m_original_ei_activity_name meta)
                   (Some (m_original_ei_activity_location meta))
      in case findTechAct env fw (m_original_ei_activity_name meta)
                (Some (m_original_ei_activity_location meta)) of
           Inl e \<Rightarrow> (fw, [find, Error_copying_or_updating modified_activity_name e])
         | Inr None \<Rightarrow> (fw, [find, Skipping_copy modified_activity_name])
         | Inr (Some original_activity) \<Rightarrow>
             (let copy = Call_copyActivity OS_database original_activity modified_activity_name
              in case copyActivity env fw OS_database original_activity modified_activity_name of
                   (Inl e, fw') \<Rightarrow>
                     (fw', [find, copy, Error_copying_or_updating modified_activity_name e])
                 | (Inr new_activity, fw') \<Rightarrow>
                     (case OS_database_dataframes modified_activity_name of
                        None \<Rightarrow>
                          (fw', [find, copy, Copied_activity modified_activity_name,
                                 Error_copying_or_updating modified_activity_name
                                   (KeyError modified_activity_name)])
                      | Some sheet_data \<Rightarrow>
                          (case modified_rows env parameter_registry modified_activity_name
                                  sheet_data [] of
                             (exchanges_dict, t) \<Rightarrow>
                               (case updateExchanges env fw' new_activity exchanges_dict of
                                  (None, fw'') \<Rightarrow>
                                    (fw'', [find, copy, Copied_activity modified_activity_name]
                                           @ t
                                           @ [Call_updateExchanges new_activity exchanges_dict,
                                              Updated_exchanges modified_activity_name])
                                | (Some e, fw'') \<Rightarrow>
                                    (fw'', [find, copy, Copied_activity modified_activity_name]
                                           @ t
                                           @ [Call_updateExchanges new_activity exchanges_dict,
                                              Error_updating modified_activity_name e]))))))"

text \<open>
  Lines 99 to 104. The metadata table is a list of rows labelled by sheet name (its
  index); \<^verbatim>\<open>sort_values(by="priority")\<close> orders the rows by ascending priority. The
  order pandas gives to rows of equal priority is not fixed by its default algorithm:
  the model takes the stable one.
\<close>

definition sorted_sheets :: "(string \<times> meta_row) list \<Rightarrow> string list" where
  "sorted_sheets custom_meta_data_DF =
     map fst (sort_key (\<lambda>(sheet_name, meta). m_priority meta) custom_meta_data_DF)"

text \<open>
  \<^verbatim>\<open>custom_meta_data_DF.loc[sheet_name]\<close>: the rows of the table with that label.
\<close>

definition loc :: "(string \<times> meta_row) list \<Rightarrow> string \<Rightarrow> meta_row list" where
  "loc custom_meta_data_DF sheet_name =
     map snd (filter (\<lambda>(label, meta). label = sheet_name) custom_meta_data_DF)"

text \<open>
  Lines 106 to 192: the loop over the sheets. Reading a sheet that the dictionary of
  data frames lacks (line 107) raises \<^verbatim>\<open>KeyError\<close> outside every \<^verbatim>\<open>try\<close>. With
  a label that the table has more than once, \<^verbatim>\<open>.loc\<close> gives a frame, its column
  \<^verbatim>\<open>type\<close> is a series, and the \<^verbatim>\<open>if\<close> of line 108 raises \<^verbatim>\<open>ValueError\<close> on the
  truth value of the comparison, outside every \<^verbatim>\<open>try\<close> too. The first component of
  the result is the exception that leaves the function, if any.
\<close>

fun sheets_loop ::
  "('fw, 'act, 'v::plus) agb \<Rightarrow> (string \<times> meta_row) list \<Rightarrow>
   (string \<rightharpoonup> (nat \<times> act_row) list) \<Rightarrow> string \<Rightarrow> (string \<rightharpoonup> 'v) \<Rightarrow> string list \<Rightarrow> 'fw \<Rightarrow>
   exn option \<times> 'fw \<times> ('act, 'v) event list" where
  "sheets_loop env custom_meta_data_DF OS_database_dataframes OS_database parameter_registry
       [] fw = (None, fw, [])"
| "sheets_loop env custom_meta_data_DF OS_database_dataframes OS_database parameter_registry
       (sheet_name # rest) fw =
     (case OS_database_dataframes sheet_name of
        None \<Rightarrow> (Some (KeyError sheet_name), fw, [])
      | Some sheet_df \<Rightarrow>
          (case loc custom_meta_data_DF sheet_name of
             [] \<Rightarrow> (Some (KeyError sheet_name), fw, [])
           | [meta] \<Rightarrow>
               (case (if m_type meta = Val ''custom''
                      then custom_sheet env fw OS_database parameter_registry sheet_name meta
                             sheet_df
                      else (fw, [])) of
                  (fw1, t1) \<Rightarrow>
                    (case (if m_type meta = Val ''modified''
                           then modified_sheet env fw1 OS_database parameter_registry sheet_name
                                  meta OS_database_dataframes
                           else (fw1, [])) of
                       (fw2, t2) \<Rightarrow>
                         (case sheets_loop env custom_meta_data_DF OS_database_dataframes
                                 OS_database parameter_registry rest fw2 of
                            (r, fw3, t3) \<Rightarrow> (r, fw3, t1 @ t2 @ t3))))
           | meta # others \<Rightarrow>
               (Some (ValueError ''The truth value of a Series is ambiguous''), fw, [])))"

definition create_custom_activities ::
  "('fw, 'act, 'v::plus) agb \<Rightarrow> 'fw \<Rightarrow> (string \<times> meta_row) list \<Rightarrow>
   (string \<rightharpoonup> (nat \<times> act_row) list) \<Rightarrow> string \<Rightarrow> (string \<rightharpoonup> 'v) \<Rightarrow>
   exn option \<times> 'fw \<times> ('act, 'v) event list" where
  "create_custom_activities env fw custom_meta_data_DF OS_database_dataframes OS_database
       parameter_registry =
     (case sheets_loop env custom_meta_data_DF OS_database_dataframes OS_database
             parameter_registry (sorted_sheets custom_meta_data_DF) fw of
        (None, fw', t) \<Rightarrow> (None, fw', t @ [Finished_all])
      | (Some e, fw', t) \<Rightarrow> (Some e, fw', t))"

section \<open>The foreground builder\<close>

text \<open>Lines 200 to 231 for one row that is not the terminator.\<close>

definition foreground_step ::
  "('fw, 'act, 'v) agb \<Rightarrow> string \<Rightarrow> string \<Rightarrow> (string \<rightharpoonup> 'v) \<Rightarrow> act_row \<Rightarrow> 'fw \<Rightarrow>
   'fw \<times> ('act, 'v) event list" where
  "foreground_step env selected_foreground OS_database parameter_registry row fw =
     (let new_activity_name = r_lca_algebraic_name row in
      case find_activity env fw (r_ei_activity_name row) (r_loc row) (r_custom_process_name row)
             (r_modified_process_name row) OS_database of
        (None, t) \<Rightarrow> (fw, t @ [Skipping_creation new_activity_name])
      | (Some ei_activity, t) \<Rightarrow>
          (case eval_in env (parameter_expression_of selected_foreground row)
                  parameter_registry of
             Inl e \<Rightarrow> (fw, t @ [Error_foreground_expression new_activity_name e])
           | Inr v \<Rightarrow>
               (case newActivity env fw OS_database new_activity_name (Val ''unit'')
                       [(ei_activity, v)] of
                  (None, fw') \<Rightarrow>
                    (fw', t @ [Call_newActivity OS_database new_activity_name (Val ''unit'')
                                 [(ei_activity, v)],
                               Activity_created new_activity_name])
                | (Some e, fw') \<Rightarrow>
                    (fw', t @ [Call_newActivity OS_database new_activity_name (Val ''unit'')
                                 [(ei_activity, v)],
                               Error_creating_activity new_activity_name e]))))"

fun foreground_rows ::
  "('fw, 'act, 'v) agb \<Rightarrow> string \<Rightarrow> string \<Rightarrow> (string \<rightharpoonup> 'v) \<Rightarrow> (nat \<times> act_row) list \<Rightarrow> 'fw \<Rightarrow>
   'fw \<times> ('act, 'v) event list" where
  "foreground_rows env selected_foreground OS_database parameter_registry [] fw = (fw, [])"
| "foreground_rows env selected_foreground OS_database parameter_registry ((index, row) # rest)
       fw =
     (if isna (r_ei_activity_name row)
      then (fw, [Stopping_at index])
      else (case foreground_step env selected_foreground OS_database parameter_registry row fw of
              (fw', t) \<Rightarrow>
                (case foreground_rows env selected_foreground OS_database parameter_registry
                        rest fw' of
                   (fw'', t') \<Rightarrow> (fw'', t @ t'))))"

text \<open>
  Line 198 reads the selected sheet from the dictionary of foreground sheets, outside
  every \<^verbatim>\<open>try\<close>.
\<close>

definition create_foreground ::
  "('fw, 'act, 'v) agb \<Rightarrow> 'fw \<Rightarrow> (string \<rightharpoonup> (nat \<times> act_row) list) \<Rightarrow> string \<Rightarrow> string \<Rightarrow>
   (string \<rightharpoonup> 'v) \<Rightarrow> exn option \<times> 'fw \<times> ('act, 'v) event list" where
  "create_foreground env fw foregrounds_All selected_foreground OS_database parameter_registry =
     (case foregrounds_All selected_foreground of
        None \<Rightarrow> (Some (KeyError selected_foreground), fw, [])
      | Some df \<Rightarrow>
          (case foreground_rows env selected_foreground OS_database parameter_registry df fw of
             (fw', t) \<Rightarrow> (None, fw', t)))"

section \<open>Notions used to state the properties\<close>

text \<open>
  What one row of a custom sheet adds to the exchanges, in the words of the
  specification: the activity the row resolves to and the value of its parameter
  expression, or nothing when the row is skipped (unresolved activity, or an expression
  that fails to evaluate).
\<close>

definition row_contribution ::
  "('fw, 'act, 'v) agb \<Rightarrow> 'fw \<Rightarrow> string \<Rightarrow> (string \<rightharpoonup> 'v) \<Rightarrow> string \<Rightarrow> act_row \<Rightarrow>
   ('act \<times> 'v) option" where
  "row_contribution env fw OS_database parameter_registry sheet_name row =
     (case fst (find_activity env fw (r_ei_activity_name row) (r_loc row)
                  (r_custom_process_name row) (r_modified_process_name row) OS_database) of
        None \<Rightarrow> None
      | Some ei_activity \<Rightarrow>
          (case eval_in env (parameter_expression_of sheet_name row) parameter_registry of
             Inl e \<Rightarrow> None
           | Inr parameter_value \<Rightarrow> Some (ei_activity, parameter_value)))"

text \<open>The contributions of the rows of a sheet before its terminator, in row order.\<close>

definition contributions ::
  "('fw, 'act, 'v) agb \<Rightarrow> 'fw \<Rightarrow> string \<Rightarrow> (string \<rightharpoonup> 'v) \<Rightarrow> string \<Rightarrow>
   (nat \<times> act_row) list \<Rightarrow> ('act \<times> 'v) list" where
  "contributions env fw OS_database parameter_registry sheet_name rows =
     List.map_filter
       (\<lambda>(index, row). row_contribution env fw OS_database parameter_registry sheet_name row)
       (takeWhile (\<lambda>(index, row). notna (r_ei_activity_name row)) rows)"

definition amounts_for :: "'act \<Rightarrow> ('act \<times> 'v) list \<Rightarrow> 'v list" where
  "amounts_for a cs = map snd (filter (\<lambda>(a', v). a' = a) cs)"

text \<open>Adding amounts, one after the other, to a dictionary entry that may be absent.\<close>

fun add_amounts :: "'v::plus option \<Rightarrow> 'v list \<Rightarrow> 'v option" where
  "add_amounts old [] = old"
| "add_amounts old (v # vs) =
     add_amounts (Some (case old of None \<Rightarrow> v | Some x \<Rightarrow> x + v)) vs"


section \<open>A test double of the framework\<close>

text \<open>
  A small concrete framework on which the theorems below are instantiated: the state is
  the list of activity names in the custom database, an activity handle is its name, a
  value is an integer. The base database holds \<open>steel\<close> and \<open>copper\<close>; creating or
  copying an activity adds its name to the custom database; \<^verbatim>\<open>eval\<close> of an expression
  looks it up as a name of the registry.
\<close>

text \<open>
  The string methods of the test double. Its sheets hold ASCII text, on which these are
  \<^verbatim>\<open>str.strip\<close>, \<^verbatim>\<open>str.lower\<close> and \<^verbatim>\<open>str.upper\<close>: white space is what
  \<^verbatim>\<open>str.isspace\<close> holds for on the code points below 256, and the test double changes
  the case of the ASCII letters only.
\<close>

definition is_space :: "char \<Rightarrow> bool" where
  "is_space c = (c \<in> set [CHR '' '', CHR 0x09, CHR 0x0A, CHR 0x0B, CHR 0x0C, CHR 0x0D,
                            CHR 0x1C, CHR 0x1D, CHR 0x1E, CHR 0x1F, CHR 0x85, CHR 0xA0])"

definition strip :: "string \<Rightarrow> string" where
  "strip s = rev (dropWhile is_space (rev (dropWhile is_space s)))"

definition lower_char :: "char \<Rightarrow> char" where
  "lower_char c =
     (case map_of (zip ''ABCDEFGHIJKLMNOPQRSTUVWXYZ'' ''abcdefghijklmnopqrstuvwxyz'') c of
        Some d \<Rightarrow> d
      | None \<Rightarrow> c)"

definition upper_char :: "char \<Rightarrow> char" where
  "upper_char c =
     (case map_of (zip ''abcdefghijklmnopqrstuvwxyz'' ''ABCDEFGHIJKLMNOPQRSTUVWXYZ'') c of
        Some d \<Rightarrow> d
      | None \<Rightarrow> c)"

definition lower :: "string \<Rightarrow> string" where
  "lower s = map lower_char s"

definition upper :: "string \<Rightarrow> string" where
  "upper s = map upper_char s"

definition test_agb :: "(string list, string, int) agb" where
  "test_agb =
     \<lparr> findActivity = (\<lambda>fw name db.
         if name \<in> set fw then Inr (Some name) else Inl (FrameworkError ''No activity found'')),
       findTechAct = (\<lambda>fw name loc.
         case name of
           Val n \<Rightarrow> if n \<in> set [''steel'', ''copper''] then Inr (Some n)
                    else Inl (FrameworkError ''No activity found'')
         | NaN \<Rightarrow> Inl (FrameworkError ''No activity found'')),
       newFloatParam = (\<lambda>fw name args. (Inr 1, fw)),
       newBoolParam = (\<lambda>fw name d. (Inr 1, fw)),
       newEnumParam = (\<lambda>fw name vals d descr. (Inr 1, fw)),
       newActivity = (\<lambda>fw db name u ex.
         case name of
           Val n \<Rightarrow> (None, n # fw)
         | NaN \<Rightarrow> (Some (FrameworkError ''name''), fw)),
       copyActivity = (\<lambda>fw db a n. (Inr n, n # fw)),
       updateExchanges = (\<lambda>fw a d. (None, fw)),
       distributionType = (\<lambda>s. None),
       eval_globals = (\<lambda>s. Inl (NameError s)),
       eval_in = (\<lambda>e reg. case reg e of Some v \<Rightarrow> Inr v | None \<Rightarrow> Inl (NameError e)),
       truthy = (\<lambda>v. v \<noteq> 0),
       zip_dict = (\<lambda>vals w. Inr w),
       str_strip = strip,
       str_lower = lower,
       str_upper = upper \<rparr>"

text \<open>
  A custom sheet \<open>S\<close> whose first and third rows resolve to \<open>steel\<close>, with parameters
  worth 2 and 3, and whose second row resolves to \<open>copper\<close>.
\<close>

definition two_three_sheet :: "(nat \<times> act_row) list" where
  "two_three_sheet =
     [(0, \<lparr> r_ei_activity_name = Val ''steel'', r_loc = Val ''FR'',
            r_parameter_number = Val ''1'', r_lca_algebraic_name = Val ''a'',
            r_custom_process_name = NaN, r_modified_process_name = NaN \<rparr>),
      (1, \<lparr> r_ei_activity_name = Val ''copper'', r_loc = NaN,
            r_parameter_number = Val ''3'', r_lca_algebraic_name = Val ''b'',
            r_custom_process_name = NaN, r_modified_process_name = NaN \<rparr>),
      (2, \<lparr> r_ei_activity_name = Val ''steel'', r_loc = Val ''FR'',
            r_parameter_number = Val ''2'', r_lca_algebraic_name = Val ''c'',
            r_custom_process_name = NaN, r_modified_process_name = NaN \<rparr>)]"

definition two_three_registry :: "string \<rightharpoonup> int" where
  "two_three_registry = [''S_1'' \<mapsto> 2, ''S_2'' \<mapsto> 3, ''S_3'' \<mapsto> 10]"

text \<open>
  A custom sheet none of whose rows contributes: the first names an activity that no
  database holds, the second a parameter that the registry lacks.
\<close>

definition skipped_sheet :: "(nat \<times> act_row) list" where
  "skipped_sheet =
     [(0, \<lparr> r_ei_activity_name = Val ''wood'', r_loc = NaN,
            r_parameter_number = Val ''1'', r_lca_algebraic_name = NaN,
            r_custom_process_name = NaN, r_modified_process_name = NaN \<rparr>),
      (1, \<lparr> r_ei_activity_name = Val ''steel'', r_loc = NaN,
            r_parameter_number = Val ''7'', r_lca_algebraic_name = NaN,
            r_custom_process_name = NaN, r_modified_process_name = NaN \<rparr>)]"

definition sheet_meta :: meta_row where
  "sheet_meta = \<lparr> m_priority = 1, m_type = Val ''custom'', m_location = Val ''FR'',
                  m_unit = Val ''kg'', m_original_ei_activity_name = NaN,
                  m_original_ei_activity_location = NaN \<rparr>"

text \<open>
  A sheet \<open>S\<close> with a row below its terminator: row 1 has no \<^verbatim>\<open>EI activity name\<close>,
  row 2 names \<open>copper\<close>. Read as a modified sheet, it copies \<open>steel\<close>.
\<close>

definition trailing_sheet :: "(nat \<times> act_row) list" where
  "trailing_sheet =
     [(0, \<lparr> r_ei_activity_name = Val ''steel'', r_loc = NaN,
            r_parameter_number = Val ''1'', r_lca_algebraic_name = NaN,
            r_custom_process_name = NaN, r_modified_process_name = NaN \<rparr>),
      (1, \<lparr> r_ei_activity_name = NaN, r_loc = NaN,
            r_parameter_number = NaN, r_lca_algebraic_name = NaN,
            r_custom_process_name = NaN, r_modified_process_name = NaN \<rparr>),
      (2, \<lparr> r_ei_activity_name = Val ''copper'', r_loc = NaN,
            r_parameter_number = Val ''3'', r_lca_algebraic_name = NaN,
            r_custom_process_name = NaN, r_modified_process_name = NaN \<rparr>)]"

definition modified_meta :: meta_row where
  "modified_meta = \<lparr> m_priority = 1, m_type = Val ''modified'', m_location = Val ''FR'',
                     m_unit = Val ''kg'', m_original_ei_activity_name = Val ''steel'',
                     m_original_ei_activity_location = Val ''FR'' \<rparr>"

text \<open>
  The keys assigned in the registry: line 88 prints \<^verbatim>\<open>Parameter created and registered\<close>
  right after the assignment of line 87, and nowhere else.
\<close>

fun key_assigned :: "('act, 'v) event \<Rightarrow> string option" where
  "key_assigned (Parameter_created param_name) = Some param_name"
| "key_assigned _ = None"

definition assigned_keys :: "('act, 'v) event list \<Rightarrow> string list" where
  "assigned_keys t = List.map_filter key_assigned t"

text \<open>Parameter sheets for the test double: a row with every cell missing, then rows that set a few cells.\<close>

definition blank_param_row :: "int param_row" where
  "blank_param_row =
     \<lparr> pr_ei_activity_name = NaN, pr_parameter_number = NaN, pr_type = NaN,
       pr_default = NaN, pr_min = NaN, pr_max = NaN, pr_std = NaN, pr_distrib = NaN,
       pr_values = NaN, pr_weights = NaN, pr_description = NaN, pr_label = NaN \<rparr>"

text \<open>Two different rows with the same parameter number.\<close>

definition same_number_sheet :: "(nat \<times> int param_row) list" where
  "same_number_sheet =
     [(0, blank_param_row\<lparr> pr_ei_activity_name := Val ''steel'',
            pr_parameter_number := Val ''1'', pr_type := Val ''bool'' \<rparr>),
      (1, blank_param_row\<lparr> pr_ei_activity_name := Val ''copper'',
            pr_parameter_number := Val ''1'', pr_type := Val ''bool'' \<rparr>)]"

text \<open>A sheet whose second row has the type tag \<open>Integer\<close>, between a bool and an enum row.\<close>

definition unsupported_row :: "int param_row" where
  "unsupported_row = blank_param_row\<lparr> pr_ei_activity_name := Val ''copper'',
                       pr_parameter_number := Val ''2'', pr_type := Val '' Integer '' \<rparr>"

definition typed_sheet :: "(nat \<times> int param_row) list" where
  "typed_sheet =
     [(0, blank_param_row\<lparr> pr_ei_activity_name := Val ''steel'',
            pr_parameter_number := Val ''1'', pr_type := Val '' Bool '' \<rparr>),
      (1, unsupported_row),
      (2, blank_param_row\<lparr> pr_ei_activity_name := Val ''wood'',
            pr_parameter_number := Val ''3'', pr_type := Val ''ENUM'' \<rparr>)]"

text \<open>
  The sheets of a table taken one after the other in the order of a list, each from the
  framework state that the one before left: a custom sheet is what \<open>custom_sheet\<close>
  does with its rows, a modified sheet what \<open>modified_sheet\<close> does, and a sheet of
  another type is passed over.
\<close>

fun run_sheets ::
  "('fw, 'act, 'v::plus) agb \<Rightarrow> string \<Rightarrow> (string \<rightharpoonup> 'v) \<Rightarrow>
   (string \<rightharpoonup> (nat \<times> act_row) list) \<Rightarrow> (string \<Rightarrow> (nat \<times> act_row) list) \<Rightarrow>
   (string \<times> meta_row) list \<Rightarrow> 'fw \<Rightarrow> 'fw \<times> ('act, 'v) event list" where
  "run_sheets env db reg dfs sheet_of [] fw = (fw, [])"
| "run_sheets env db reg dfs sheet_of ((sheet_name, meta) # rest) fw =
     (case (if m_type meta = Val ''custom''
            then custom_sheet env fw db reg sheet_name meta (sheet_of sheet_name)
            else if m_type meta = Val ''modified''
            then modified_sheet env fw db reg sheet_name meta dfs
            else (fw, [])) of
        (fw1, t1) \<Rightarrow>
          (case run_sheets env db reg dfs sheet_of rest fw1 of
             (fw2, t2) \<Rightarrow> (fw2, t1 @ t2)))"

text \<open>
  The sheet that the dictionary of data frames holds under a name, and the rows of the
  table that the loop of lines 106 to 192 can take up: the dictionary holds the sheet
  (line 107) and the label is of one row only (line 108).
\<close>

definition sheet_in ::
  "(string \<rightharpoonup> (nat \<times> act_row) list) \<Rightarrow> string \<Rightarrow> (nat \<times> act_row) list" where
  "sheet_in OS_database_dataframes sheet_name =
     (case OS_database_dataframes sheet_name of Some sheet_df \<Rightarrow> sheet_df | None \<Rightarrow> [])"

definition readable ::
  "(string \<times> meta_row) list \<Rightarrow> (string \<rightharpoonup> (nat \<times> act_row) list) \<Rightarrow>
   string \<times> meta_row \<Rightarrow> bool" where
  "readable custom_meta_data_DF OS_database_dataframes =
     (\<lambda>(sheet_name, meta).
        OS_database_dataframes sheet_name \<noteq> None
        \<and> length (loc custom_meta_data_DF sheet_name) = 1)"

text \<open>
  A metadata table with the priorities 2, 1 and 3, a modified sheet whose original
  activity no database holds, and the sheets of a run in which lookups, expressions
  and a copy fail.
\<close>

definition failing_meta :: meta_row where
  "failing_meta = \<lparr> m_priority = 3, m_type = Val ''modified'', m_location = Val ''FR'',
                    m_unit = Val ''kg'', m_original_ei_activity_name = Val ''wood'',
                    m_original_ei_activity_location = NaN \<rparr>"

definition priorities_table :: "(string \<times> meta_row) list" where
  "priorities_table =
     [(''A'', sheet_meta\<lparr> m_priority := 2 \<rparr>), (''B'', modified_meta), (''C'', failing_meta)]"

definition priorities_sheets :: "string \<rightharpoonup> (nat \<times> act_row) list" where
  "priorities_sheets = [''A'' \<mapsto> skipped_sheet, ''B'' \<mapsto> trailing_sheet, ''C'' \<mapsto> []]"

text \<open>
  A sheet whose second row has an unsupported type tag and the parameter number of the
  bool row above it.
\<close>

definition shared_number_sheet :: "(nat \<times> int param_row) list" where
  "shared_number_sheet =
     [(0, blank_param_row\<lparr> pr_ei_activity_name := Val ''copper'',
            pr_parameter_number := Val ''2'', pr_type := Val ''bool'' \<rparr>),
      (1, unsupported_row)]"

text \<open>
  A second test double: the base database answers \<open>None\<close> for \<open>ghost\<close>, and creating
  a bool parameter, creating an activity, copying to the name \<open>X\<close> and updating the
  exchanges of an activity raise.
\<close>

definition faulty_agb :: "(string list, string, int) agb" where
  "faulty_agb =
     test_agb\<lparr> findTechAct := (\<lambda>fw name loc.
                  if name = Val ''ghost'' then Inr None else findTechAct test_agb fw name loc),
               newBoolParam := (\<lambda>fw name d. (Inl (FrameworkError ''parameter''), fw)),
               newActivity := (\<lambda>fw db name u ex. (Some (FrameworkError ''activity''), fw)),
               copyActivity := (\<lambda>fw db a n.
                  if n = ''X'' then (Inl (FrameworkError ''copy''), fw) else (Inr n, n # fw)),
               updateExchanges := (\<lambda>fw a d. (Some (FrameworkError ''update''), fw)) \<rparr>"

text \<open>
  Rows of activity sheets: one names an activity that no database holds, one a parameter
  number 7 that no registry below has, one resolves to \<open>steel\<close> with the parameter
  number 1.
\<close>

definition wood_row :: act_row where
  "wood_row = \<lparr> r_ei_activity_name = Val ''wood'', r_loc = NaN,
                r_parameter_number = Val ''1'', r_lca_algebraic_name = NaN,
                r_custom_process_name = NaN, r_modified_process_name = NaN \<rparr>"

definition unregistered_row :: act_row where
  "unregistered_row = \<lparr> r_ei_activity_name = Val ''steel'', r_loc = NaN,
                        r_parameter_number = Val ''7'', r_lca_algebraic_name = NaN,
                        r_custom_process_name = NaN, r_modified_process_name = NaN \<rparr>"

definition steel_row :: act_row where
  "steel_row = \<lparr> r_ei_activity_name = Val ''steel'', r_loc = Val ''FR'',
                 r_parameter_number = Val ''1'', r_lca_algebraic_name = Val ''a'',
                 r_custom_process_name = NaN, r_modified_process_name = NaN \<rparr>"

text \<open>
  A parameter row of type bool, one of type enum whose values are an expression that
  does not evaluate, and the metadata of a modified sheet that copies \<open>ghost\<close>.
\<close>

definition bool_row :: "int param_row" where
  "bool_row = blank_param_row\<lparr> pr_ei_activity_name := Val ''steel'',
                pr_parameter_number := Val ''1'', pr_type := Val ''bool'' \<rparr>"

definition enum_row :: "int param_row" where
  "enum_row = blank_param_row\<lparr> pr_ei_activity_name := Val ''steel'',
                pr_parameter_number := Val ''4'', pr_type := Val ''enum'',
                pr_values := Val (PStr ''abc'') \<rparr>"

definition ghost_meta :: meta_row where
  "ghost_meta = modified_meta\<lparr> m_original_ei_activity_name := Val ''ghost'' \<rparr>"

text \<open>
  A table of two custom sheets \<open>A\<close> and \<open>B\<close>, a dictionary that holds both sheets, and
  one that holds only \<open>A\<close>; a dictionary with one foreground sheet and one with one
  modified sheet.
\<close>

definition two_custom_table :: "(string \<times> meta_row) list" where
  "two_custom_table = [(''A'', sheet_meta), (''B'', sheet_meta\<lparr> m_priority := 2 \<rparr>)]"

definition two_custom_sheet_of :: "string \<Rightarrow> (nat \<times> act_row) list" where
  "two_custom_sheet_of n = (if n = ''A'' then [(0, wood_row), (1, unregistered_row)] else [])"

definition two_custom_sheets :: "string \<rightharpoonup> (nat \<times> act_row) list" where
  "two_custom_sheets = [''A'' \<mapsto> [(0, wood_row), (1, unregistered_row)], ''B'' \<mapsto> []]"

definition lone_custom_sheet :: "string \<rightharpoonup> (nat \<times> act_row) list" where
  "lone_custom_sheet = [''A'' \<mapsto> [(0, wood_row), (1, unregistered_row)]]"

definition one_foreground :: "string \<rightharpoonup> (nat \<times> act_row) list" where
  "one_foreground = [''F'' \<mapsto> [(0, wood_row), (1, unregistered_row)]]"

definition one_modified_sheet :: "string \<rightharpoonup> (nat \<times> act_row) list" where
  "one_modified_sheet = [''S'' \<mapsto> [(0, steel_row)]]"

section \<open>Properties of the activity resolver\<close>

text \<open>
  Claim C1. When the modified-activity name is present and its lookup in the custom
  database returns, \<open>find_activity\<close> returns what that lookup returned and makes no other
  lookup. When the modified-activity name is missing or its lookup raises, and the
  custom-process name is present and its lookup returns, \<open>find_activity\<close> returns what
  that lookup returned, and the base database is not queried.
\<close>

theorem find_activity_prefers_modified:
  "(modified_activity_name = Val m \<and> findActivity env fw m custom_db = Inr r \<longrightarrow>
      find_activity env fw ei_activity_name location custom_process_name
        modified_activity_name custom_db = (r, [Call_findActivity m custom_db]))
   \<and> ((modified_activity_name = NaN \<or>
        (\<exists>m e. modified_activity_name = Val m \<and> findActivity env fw m custom_db = Inl e))
       \<and> custom_process_name = Val c \<and> findActivity env fw c custom_db = Inr r' \<longrightarrow>
      fst (find_activity env fw ei_activity_name location custom_process_name
             modified_activity_name custom_db) = r'
      \<and> (\<forall>n l. Call_findTechAct n l \<notin> set (snd (find_activity env fw ei_activity_name location
             custom_process_name modified_activity_name custom_db))))"
  by (auto simp: find_activity_def try_modified_def try_custom_def split: cell.splits sum.splits)

theorem find_activity_prefers_modified_witness:
  "findActivity test_agb [''m'', ''c''] ''m'' ''db'' = Inr (Some ''m'')
   \<and> find_activity test_agb [''m'', ''c''] (Val ''steel'') NaN (Val ''c'') (Val ''m'') ''db''
       = (Some ''m'', [Call_findActivity ''m'' ''db''])
   \<and> findActivity test_agb [''c''] ''m'' ''db'' = Inl (FrameworkError ''No activity found'')
   \<and> findActivity test_agb [''c''] ''c'' ''db'' = Inr (Some ''c'')
   \<and> fst (find_activity test_agb [''c''] (Val ''steel'') NaN (Val ''c'') (Val ''m'') ''db'')
       = Some ''c''"
proof -
  have h1: "findActivity test_agb [''m'', ''c''] ''m'' ''db'' = Inr (Some ''m'')"
    by (simp add: test_agb_def)
  have h2: "findActivity test_agb [''c''] ''m'' ''db'' = Inl (FrameworkError ''No activity found'')"
    by (simp add: test_agb_def)
  have h3: "findActivity test_agb [''c''] ''c'' ''db'' = Inr (Some ''c'')"
    by (simp add: test_agb_def)
  have c1: "find_activity test_agb [''m'', ''c''] (Val ''steel'') NaN (Val ''c'') (Val ''m'') ''db''
       = (Some ''m'', [Call_findActivity ''m'' ''db''])"
    using find_activity_prefers_modified
      [of "Val ''m''" "''m''" test_agb "[''m'', ''c'']" "''db''" "Some ''m''", THEN conjunct1]
      h1 by blast
  have c2: "fst (find_activity test_agb [''c''] (Val ''steel'') NaN (Val ''c'') (Val ''m'') ''db'')
       = Some ''c''"
    using find_activity_prefers_modified
      [of "Val ''m''" _ test_agb "[''c'']" "''db''" _ _ _ _ "''c''" "Some ''c''", THEN conjunct2]
      h2 h3 by blast
  show ?thesis using h1 h2 h3 c1 c2 by blast
qed

text \<open>
  Claim C8. When the modified-activity lookup, the custom-process lookup and the
  base-database lookup all fail (each name is missing or its lookup raises, and the
  base lookup raises), \<open>find_activity\<close> returns \<^verbatim>\<open>None\<close> and the trace holds the
  failure line of every lookup that raised. The function returns a value: every
  library call of \<^verbatim>\<open>find_activity\<close> is inside a \<^verbatim>\<open>try\<close> whose handler catches
  \<^verbatim>\<open>Exception\<close>, so that the model has no exception to hand to the caller.
\<close>

theorem find_activity_all_fail:
  assumes "modified_activity_name = NaN \<or>
           (\<exists>m e. modified_activity_name = Val m \<and> findActivity env fw m custom_db = Inl e)"
      and "custom_process_name = NaN \<or>
           (\<exists>c e. custom_process_name = Val c \<and> findActivity env fw c custom_db = Inl e)"
      and "findTechAct env fw ei_activity_name (if notna location then Some location else None)
             = Inl e3"
  shows "fst (find_activity env fw ei_activity_name location custom_process_name
                modified_activity_name custom_db) = None
         \<and> Failed_ecoinvent ei_activity_name location e3
             \<in> set (snd (find_activity env fw ei_activity_name location custom_process_name
                           modified_activity_name custom_db))
         \<and> (\<forall>m e. modified_activity_name = Val m \<and> findActivity env fw m custom_db = Inl e
              \<longrightarrow> Failed_modified m custom_db e
                    \<in> set (snd (find_activity env fw ei_activity_name location
                                   custom_process_name modified_activity_name custom_db)))
         \<and> (\<forall>c e. custom_process_name = Val c \<and> findActivity env fw c custom_db = Inl e
              \<longrightarrow> Failed_custom c custom_db e
                    \<in> set (snd (find_activity env fw ei_activity_name location
                                   custom_process_name modified_activity_name custom_db)))"
  using assms
  by (auto simp: find_activity_def try_modified_def try_custom_def base_lookup_def
           split: cell.splits sum.splits)

theorem find_activity_all_fail_witness:
  "fst (find_activity test_agb [] (Val ''wood'') (Val ''FR'') (Val ''c'') (Val ''m'') ''db'')
     = None
   \<and> Failed_ecoinvent (Val ''wood'') (Val ''FR'') (FrameworkError ''No activity found'')
       \<in> set (snd (find_activity test_agb [] (Val ''wood'') (Val ''FR'') (Val ''c'') (Val ''m'')
                     ''db''))
   \<and> Failed_modified ''m'' ''db'' (FrameworkError ''No activity found'')
       \<in> set (snd (find_activity test_agb [] (Val ''wood'') (Val ''FR'') (Val ''c'') (Val ''m'')
                     ''db''))
   \<and> Failed_custom ''c'' ''db'' (FrameworkError ''No activity found'')
       \<in> set (snd (find_activity test_agb [] (Val ''wood'') (Val ''FR'') (Val ''c'') (Val ''m'')
                     ''db''))"
proof -
  have m: "findActivity test_agb [] ''m'' ''db'' = Inl (FrameworkError ''No activity found'')"
    by (simp add: test_agb_def)
  have c: "findActivity test_agb [] ''c'' ''db'' = Inl (FrameworkError ''No activity found'')"
    by (simp add: test_agb_def)
  have h1: "Val ''m'' = (NaN :: string cell) \<or>
            (\<exists>m e. Val ''m'' = Val m \<and> findActivity test_agb [] m ''db'' = Inl e)"
    using m by blast
  have h2: "Val ''c'' = (NaN :: string cell) \<or>
            (\<exists>c e. Val ''c'' = Val c \<and> findActivity test_agb [] c ''db'' = Inl e)"
    using c by blast
  have h3: "findTechAct test_agb [] (Val ''wood'')
              (if notna (Val ''FR'') then Some (Val ''FR'') else None)
            = Inl (FrameworkError ''No activity found'')"
    by (simp add: test_agb_def)
  show ?thesis
    using find_activity_all_fail [OF h1 h2 h3] m c by blast
qed

text \<open>
  Claim C9. When neither the modified-activity name nor the custom-process name yields
  a match, the only call to \<^verbatim>\<open>findTechAct\<close> is made with the name and, exactly when
  the location is present, with the location; with a missing location the call has the
  name only. The resolver returns what that call returned, or \<^verbatim>\<open>None\<close> when it raised.
\<close>

theorem find_activity_base_fallback:
  assumes "modified_activity_name = NaN \<or>
           (\<exists>m e. modified_activity_name = Val m \<and> findActivity env fw m custom_db = Inl e)"
      and "custom_process_name = NaN \<or>
           (\<exists>c e. custom_process_name = Val c \<and> findActivity env fw c custom_db = Inl e)"
  shows "(\<forall>n l. Call_findTechAct n l
                  \<in> set (snd (find_activity env fw ei_activity_name location
                                custom_process_name modified_activity_name custom_db))
               \<longleftrightarrow> n = ei_activity_name \<and> l = (if notna location then Some location else None))
         \<and> fst (find_activity env fw ei_activity_name location custom_process_name
                  modified_activity_name custom_db)
             = (case findTechAct env fw ei_activity_name
                       (if notna location then Some location else None) of
                  Inr r \<Rightarrow> r
                | Inl e \<Rightarrow> None)"
  using assms
  by (auto simp: find_activity_def try_modified_def try_custom_def base_lookup_def
           split: cell.splits sum.splits)

theorem find_activity_base_fallback_witness:
  "Call_findTechAct (Val ''steel'') (Some (Val ''FR''))
     \<in> set (snd (find_activity test_agb [] (Val ''steel'') (Val ''FR'') NaN NaN ''db''))
   \<and> Call_findTechAct (Val ''steel'') None
       \<notin> set (snd (find_activity test_agb [] (Val ''steel'') (Val ''FR'') NaN NaN ''db''))
   \<and> fst (find_activity test_agb [] (Val ''steel'') (Val ''FR'') NaN NaN ''db'') = Some ''steel''
   \<and> Call_findTechAct (Val ''steel'') None
       \<in> set (snd (find_activity test_agb [] (Val ''steel'') NaN NaN NaN ''db''))
   \<and> fst (find_activity test_agb [] (Val ''steel'') NaN NaN NaN ''db'') = Some ''steel''"
proof -
  have h: "(NaN :: string cell) = NaN \<or>
           (\<exists>m e. (NaN :: string cell) = Val m \<and> findActivity test_agb [] m ''db'' = Inl e)"
    by simp
  have t: "findTechAct test_agb [] (Val ''steel'') l = Inr (Some ''steel'')" for l
    by (simp add: test_agb_def)
  show ?thesis
    using find_activity_base_fallback [OF h h, of "Val ''steel''" "Val ''FR''"]
          find_activity_base_fallback [OF h h, of "Val ''steel''" NaN]
    by (simp add: t)
qed

section \<open>Properties of the custom activity builder\<close>

lemma notna_iff_not_isna [simp]: "notna c = (\<not> isna c)"
  by (cases c) auto

lemma map_of_accumulate:
  "map_of (accumulate a v acc) b =
     (if b = a then Some (case map_of acc a of None \<Rightarrow> v | Some old \<Rightarrow> old + v)
      else map_of acc b)"
  by (simp add: accumulate_def update_conv' split: option.splits)

lemma custom_step_fst:
  "fst (custom_step env fw db reg sheet index row acc) =
     (case row_contribution env fw db reg sheet row of
        None \<Rightarrow> acc
      | Some (a, v) \<Rightarrow> accumulate a v acc)"
  by (simp add: custom_step_def row_contribution_def split: prod.splits option.splits sum.splits)

text \<open>
  The row loop folds the contributions of the rows before the terminator into the
  dictionary, in row order.
\<close>

lemma custom_rows_fold:
  "fst (custom_rows env fw db reg sheet rows acc) =
     foldl (\<lambda>acc (a, v). accumulate a v acc) acc (contributions env fw db reg sheet rows)"
proof (induction rows arbitrary: acc)
  case Nil
  then show ?case by (simp add: contributions_def)
next
  case (Cons p rows)
  obtain index row where p: "p = (index, row)" by (cases p)
  show ?case
  proof (cases "isna (r_ei_activity_name row)")
    case True
    then show ?thesis by (simp add: p contributions_def)
  next
    case False
    have "fst (custom_rows env fw db reg sheet (p # rows) acc) =
          fst (custom_rows env fw db reg sheet rows
                 (fst (custom_step env fw db reg sheet index row acc)))"
      using False by (simp add: p split: prod.splits)
    also have "\<dots> = foldl (\<lambda>acc (a, v). accumulate a v acc)
                       (fst (custom_step env fw db reg sheet index row acc))
                       (contributions env fw db reg sheet rows)"
      by (rule Cons.IH)
    also have "\<dots> = foldl (\<lambda>acc (a, v). accumulate a v acc) acc
                       (contributions env fw db reg sheet (p # rows))"
      using False
      by (simp add: p contributions_def custom_step_fst split: option.splits)
    finally show ?thesis .
  qed
qed

lemma map_of_fold_accumulate:
  "map_of (foldl (\<lambda>acc (a, v). accumulate a v acc) acc cs) b =
     add_amounts (map_of acc b) (amounts_for b cs)"
proof (induction cs arbitrary: acc)
  case Nil
  then show ?case by (simp add: amounts_for_def)
next
  case (Cons c cs)
  obtain a v where c: "c = (a, v)" by (cases c)
  have "map_of (foldl (\<lambda>acc (a, v). accumulate a v acc) acc (c # cs)) b =
        add_amounts (map_of (accumulate a v acc) b) (amounts_for b cs)"
    using Cons.IH [of "accumulate a v acc"] by (simp add: c)
  also have "\<dots> = add_amounts (map_of acc b) (amounts_for b (c # cs))"
    by (simp add: c map_of_accumulate amounts_for_def)
  finally show ?case .
qed

lemma add_amounts_Some:
  fixes x :: "'v::monoid_add"
  shows "add_amounts (Some x) vs = Some (x + sum_list vs)"
  by (induction vs arbitrary: x) (simp_all add: add.assoc)

lemma add_amounts_None:
  fixes vs :: "'v::monoid_add list"
  shows "add_amounts None vs = (if vs = [] then None else Some (sum_list vs))"
  by (cases vs) (simp_all add: add_amounts_Some)

text \<open>
  Claim C3. The exchanges that a custom sheet passes to \<^verbatim>\<open>agb.newActivity\<close> map each
  activity to the sum of the evaluated parameter expressions of the rows, before the
  terminator and not skipped, that resolve to it, and have no entry for an activity to
  which no such row resolves. Values are added with the addition of their type (an
  additive monoid, as the numbers and the symbolic expressions of the library are),
  from the first row to the last.
\<close>

theorem custom_sheet_sums_amounts:
  fixes env :: "('fw, 'act, 'v::monoid_add) agb"
  shows "Call_newActivity db (Val sheet) (m_unit meta)
           (fst (custom_rows env fw db reg sheet df []))
           \<in> set (snd (custom_sheet env fw db reg sheet meta df))
         \<and> map_of (fst (custom_rows env fw db reg sheet df [])) a =
             (if amounts_for a (contributions env fw db reg sheet df) = [] then None
              else Some (sum_list (amounts_for a (contributions env fw db reg sheet df))))"
proof
  show "Call_newActivity db (Val sheet) (m_unit meta)
           (fst (custom_rows env fw db reg sheet df []))
           \<in> set (snd (custom_sheet env fw db reg sheet meta df))"
    by (simp add: custom_sheet_def split: prod.splits option.splits)
  show "map_of (fst (custom_rows env fw db reg sheet df [])) a =
             (if amounts_for a (contributions env fw db reg sheet df) = [] then None
              else Some (sum_list (amounts_for a (contributions env fw db reg sheet df))))"
    by (simp add: custom_rows_fold map_of_fold_accumulate add_amounts_None)
qed

text \<open>Two rows resolving to \<open>steel\<close> with amounts 2 and 3 give \<open>steel\<close> the amount 5.\<close>

theorem custom_sheet_sums_amounts_witness:
  "contributions test_agb [] ''db'' two_three_registry ''S'' two_three_sheet
     = [(''steel'', 2), (''copper'', 10), (''steel'', 3)]
   \<and> map_of (fst (custom_rows test_agb [] ''db'' two_three_registry ''S'' two_three_sheet []))
       ''steel'' = Some 5"
proof -
  have c: "contributions test_agb [] ''db'' two_three_registry ''S'' two_three_sheet
             = [(''steel'', 2), (''copper'', 10), (''steel'', 3)]"
    by (simp add: contributions_def two_three_sheet_def two_three_registry_def
          row_contribution_def find_activity_def try_modified_def try_custom_def
          base_lookup_def test_agb_def parameter_expression_of_def)
  show ?thesis
    using custom_sheet_sums_amounts
            [of "''db''" "''S''" _ test_agb "[]" two_three_registry two_three_sheet "''steel''",
             THEN conjunct2]
    by (simp add: c amounts_for_def)
qed










section \<open>Rows and the terminator\<close>

text \<open>
  The loops of the parameter builder, of a custom sheet and of the foreground builder
  go through the rows before the first row without \<^verbatim>\<open>EI activity name\<close> one after the
  other, whatever each row does, and stop at that row: the rows below it are not
  looked at, and what the rows above it recorded stays as it was.
\<close>

lemma process_rows_append:
  assumes "\<forall>(i, r) \<in> set pre. notna (pr_ei_activity_name r)"
  shows "process_rows env s (pre @ post) reg fw =
           (case process_rows env s pre reg fw of
              (reg', fw', t) \<Rightarrow>
                (case process_rows env s post reg' fw' of
                   (reg'', fw'', t') \<Rightarrow> (reg'', fw'', t @ t')))"
  using assms
proof (induction pre arbitrary: reg fw)
  case Nil
  then show ?case by (simp add: split_beta)
next
  case (Cons p pre)
  obtain i r where p: "p = (i, r)" by (cases p)
  from Cons.prems have ih: "\<forall>(i, r) \<in> set pre. notna (pr_ei_activity_name r)"
    and nn: "\<not> isna (pr_ei_activity_name r)"
    by (auto simp: p)
  show ?case
    using nn by (simp add: p split_beta Cons.IH [OF ih])
qed

lemma custom_rows_append:
  assumes "\<forall>(i, r) \<in> set pre. notna (r_ei_activity_name r)"
  shows "custom_rows env fw db reg s (pre @ post) acc =
           (case custom_rows env fw db reg s pre acc of
              (acc', t) \<Rightarrow>
                (case custom_rows env fw db reg s post acc' of
                   (acc'', t') \<Rightarrow> (acc'', t @ t')))"
  using assms
proof (induction pre arbitrary: acc)
  case Nil
  then show ?case by (simp add: split_beta)
next
  case (Cons p pre)
  obtain i r where p: "p = (i, r)" by (cases p)
  from Cons.prems have ih: "\<forall>(i, r) \<in> set pre. notna (r_ei_activity_name r)"
    and nn: "\<not> isna (r_ei_activity_name r)"
    by (auto simp: p)
  show ?case
    using nn by (simp add: p split_beta Cons.IH [OF ih])
qed

lemma foreground_rows_append:
  assumes "\<forall>(i, r) \<in> set pre. notna (r_ei_activity_name r)"
  shows "foreground_rows env s db reg (pre @ post) fw =
           (case foreground_rows env s db reg pre fw of
              (fw', t) \<Rightarrow>
                (case foreground_rows env s db reg post fw' of
                   (fw'', t') \<Rightarrow> (fw'', t @ t')))"
  using assms
proof (induction pre arbitrary: fw)
  case Nil
  then show ?case by (simp add: split_beta)
next
  case (Cons p pre)
  obtain i r where p: "p = (i, r)" by (cases p)
  from Cons.prems have ih: "\<forall>(i, r) \<in> set pre. notna (r_ei_activity_name r)"
    and nn: "\<not> isna (r_ei_activity_name r)"
    by (auto simp: p)
  show ?case
    using nn by (simp add: p split_beta Cons.IH [OF ih])
qed

lemma process_rows_stops_at_terminator:
  assumes "\<forall>(i, r) \<in> set pre. notna (pr_ei_activity_name r)"
      and "isna (pr_ei_activity_name row)"
  shows "process_rows env s (pre @ (index, row) # post) reg fw =
           (case process_rows env s pre reg fw of
              (reg', fw', t) \<Rightarrow> (reg', fw', t @ [Skipping_param_row index]))"
  using assms(2) by (simp add: process_rows_append [OF assms(1)] split_beta)

lemma custom_rows_stops_at_terminator:
  assumes "\<forall>(i, r) \<in> set pre. notna (r_ei_activity_name r)"
      and "isna (r_ei_activity_name row)"
  shows "custom_rows env fw db reg s (pre @ (index, row) # post) acc =
           (case custom_rows env fw db reg s pre acc of
              (acc', t) \<Rightarrow> (acc', t @ [Skipping_row_nan index s]))"
  using assms(2) by (simp add: custom_rows_append [OF assms(1)] split_beta)

lemma foreground_rows_stops_at_terminator:
  assumes "\<forall>(i, r) \<in> set pre. notna (r_ei_activity_name r)"
      and "isna (r_ei_activity_name row)"
  shows "foreground_rows env s db reg (pre @ (index, row) # post) fw =
           (case foreground_rows env s db reg pre fw of
              (fw', t) \<Rightarrow> (fw', t @ [Stopping_at index]))"
  using assms(2) by (simp add: foreground_rows_append [OF assms(1)] split_beta)

text \<open>
  Claim C2. The claim holds for the parameter builder, the custom sheets and the
  foreground builder (the three lemmas above). It fails for a modified sheet: the loop
  of lines 172 to 182 has no test of \<^verbatim>\<open>EI activity name\<close>. On \<open>trailing_sheet\<close>, whose
  row 1 is the terminator, the row is evaluated as a parameter expression (which
  fails), and row 2, below the terminator, is evaluated and passed to
  \<^verbatim>\<open>updateExchanges\<close>; the loop of a custom sheet stops at row 1 of the same sheet.
\<close>

theorem modified_sheet_ignores_terminator:
  "create_custom_activities test_agb [] [(''S'', modified_meta)] [''S'' \<mapsto> trailing_sheet]
     ''db'' two_three_registry
   = (None, [''S''],
      [Call_findTechAct (Val ''steel'') (Some (Val ''FR'')),
       Call_copyActivity ''db'' ''steel'' ''S'',
       Copied_activity ''S'',
       Evaluated_amount (Val ''steel'') 2,
       Error_evaluating ''S_nan'' NaN (NameError ''S_nan''),
       Evaluated_amount (Val ''copper'') 10,
       Call_updateExchanges ''S'' [(Val ''steel'', 2), (Val ''copper'', 10)],
       Updated_exchanges ''S'',
       Finished_all])
   \<and> custom_rows test_agb [] ''db'' two_three_registry ''S'' trailing_sheet []
       = ([(''steel'', 2)], [Call_findTechAct (Val ''steel'') None, Skipping_row_nan 1 ''S''])"
  by (simp add: custom_step_def find_activity_def try_modified_def try_custom_def
        base_lookup_def accumulate_def create_custom_activities_def sorted_sheets_def
        loc_def modified_meta_def
        modified_sheet_def trailing_sheet_def two_three_registry_def test_agb_def
        parameter_expression_of_def Let_def)

section \<open>Properties of the parameter builder\<close>

lemma assigned_keys_append [simp]:
  "assigned_keys (t @ t') = assigned_keys t @ assigned_keys t'"
  by (simp add: assigned_keys_def List.map_filter_def)

lemma assigned_keys_simps [simp]:
  "assigned_keys [] = []"
  "assigned_keys (e # t) =
     (case key_assigned e of None \<Rightarrow> assigned_keys t | Some k \<Rightarrow> k # assigned_keys t)"
  by (simp_all add: assigned_keys_def List.map_filter_simps split: option.splits)

lemma create_param_keys:
  "assigned_keys (snd (snd (create_param env fw n ty r))) = []"
  by (simp add: create_param_def Let_def split_beta split: cell.splits sum.splits)

lemma param_step_keys:
  "(assigned_keys (snd (snd (param_step env s r reg fw))) = []
      \<and> fst (param_step env s r reg fw) = reg)
   \<or> (assigned_keys (snd (snd (param_step env s r reg fw))) = [param_name_of s r]
      \<and> (\<exists>param. fst (param_step env s r reg fw) = reg(param_name_of s r \<mapsto> param)))"
proof (cases "create_param env fw (param_name_of s r) (param_type_of env r) r")
  case (fields res fw' t)
  have k: "assigned_keys t = []"
    using create_param_keys [of env fw "param_name_of s r" "param_type_of env r" r]
    by (simp add: fields)
  show ?thesis
    by (cases res) (auto simp: param_step_def fields k Let_def)
qed

lemma process_rows_keys:
  "set (assigned_keys (snd (snd (process_rows env s rows reg fw))))
     \<subseteq> set (map (\<lambda>(i, r). param_name_of s r)
              (takeWhile (\<lambda>(i, r). notna (pr_ei_activity_name r)) rows))
   \<and> dom (fst (process_rows env s rows reg fw))
       = dom reg \<union> set (assigned_keys (snd (snd (process_rows env s rows reg fw))))
   \<and> (distinct (map (\<lambda>(i, r). param_name_of s r)
                  (takeWhile (\<lambda>(i, r). notna (pr_ei_activity_name r)) rows))
        \<longrightarrow> distinct (assigned_keys (snd (snd (process_rows env s rows reg fw)))))"
proof (induction rows arbitrary: reg fw)
  case Nil
  then show ?case by simp
next
  case (Cons p rows)
  obtain i r where p: "p = (i, r)" by (cases p)
  show ?case
  proof (cases "isna (pr_ei_activity_name r)")
    case True
    then show ?thesis by (simp add: p)
  next
    case False
    obtain reg' fw' t where st: "param_step env s r reg fw = (reg', fw', t)"
      by (cases "param_step env s r reg fw")
    define K where "K = assigned_keys (snd (snd (process_rows env s rows reg' fw')))"
    define N where "N = map (\<lambda>(i, r). param_name_of s r)
                          (takeWhile (\<lambda>(i, r). notna (pr_ei_activity_name r)) rows)"
    define D where "D = dom (fst (process_rows env s rows reg' fw'))"
    have ih: "set K \<subseteq> set N" "D = dom reg' \<union> set K" "distinct N \<longrightarrow> distinct K"
      using Cons.IH [of reg' fw'] by (simp_all add: K_def N_def D_def)
    have run: "assigned_keys (snd (snd (process_rows env s (p # rows) reg fw)))
                 = assigned_keys t @ K"
              "dom (fst (process_rows env s (p # rows) reg fw)) = D"
      using False by (simp_all add: p st split_beta K_def D_def)
    have names: "map (\<lambda>(i, r). param_name_of s r)
                   (takeWhile (\<lambda>(i, r). notna (pr_ei_activity_name r)) (p # rows))
                 = param_name_of s r # N"
      using False by (simp add: p N_def)
    from param_step_keys [of env s r reg fw]
    have step: "(assigned_keys t = [] \<and> reg' = reg)
                \<or> (assigned_keys t = [param_name_of s r]
                    \<and> (\<exists>param. reg' = reg(param_name_of s r \<mapsto> param)))"
      by (simp add: st)
    then have d: "dom reg' = dom reg \<union> set (assigned_keys t)"
      by auto
    from step have k: "set (assigned_keys t) \<subseteq> {param_name_of s r}"
      "distinct (assigned_keys t)"
      by auto
    show ?thesis
      unfolding run names using ih d k by auto
  qed
qed

lemma param_name_of_inj:
  "(param_name_of s r = param_name_of s r')
     = (str_cell (pr_parameter_number r) = str_cell (pr_parameter_number r'))"
  by (simp add: param_name_of_def)

lemma distinct_param_names:
  "distinct (map (\<lambda>(i, r). param_name_of s r) rows)
     = distinct (map (\<lambda>(i, r). str_cell (pr_parameter_number r)) rows)"
proof -
  have "map (\<lambda>(i, r). param_name_of s r) rows
        = map (\<lambda>x. s @ ''_'' @ x) (map (\<lambda>(i, r). str_cell (pr_parameter_number r)) rows)"
    by (simp add: param_name_of_def split_beta)
  moreover have "inj (\<lambda>x. s @ ''_'' @ x)"
    by (simp add: inj_def)
  ultimately show ?thesis
    by (metis distinct_map inj_on_subset subset_UNIV)
qed

lemma normalise_type_fields [simp]:
  "pr_ei_activity_name (normalise_type env r) = pr_ei_activity_name r"
  "pr_parameter_number (normalise_type env r) = pr_parameter_number r"
  "param_name_of s (normalise_type env r) = param_name_of s r"
  by (simp_all add: normalise_type_def param_name_of_def)

lemma takeWhile_normalise:
  "takeWhile (\<lambda>(i, r). notna (pr_ei_activity_name r))
     (map (\<lambda>(index, row). (index, normalise_type env row)) rows)
   = map (\<lambda>(index, row). (index, normalise_type env row))
       (takeWhile (\<lambda>(i, r). notna (pr_ei_activity_name r)) rows)"
  by (induction rows) (auto simp: split_beta)

text \<open>
  Claim C4, as amended. The key of a row is the sheet name, an underscore and
  \<^verbatim>\<open>str\<close> of the cell \<^verbatim>\<open>parameter number\<close> of the row (not the index of the row), and
  line 87 assigns it with no test of what the registry holds. In one call of the
  parameter builder, if the rows before the terminator have different parameter
  numbers, no key is assigned twice; every key assigned is the key of such a row, and
  the registry after the call holds the keys it held before and the keys assigned.
\<close>

theorem registry_keys_assigned_once:
  assumes "distinct (map (\<lambda>(i, r). str_cell (pr_parameter_number r))
                      (takeWhile (\<lambda>(i, r). notna (pr_ei_activity_name r)) params_df))"
  shows "distinct (assigned_keys
                     (snd (snd (process_parameters env fw params_df reg sheet_name))))
         \<and> set (assigned_keys
                  (snd (snd (process_parameters env fw params_df reg sheet_name))))
             \<subseteq> set (map (\<lambda>(i, r). sheet_name @ ''_'' @ str_cell (pr_parameter_number r))
                      (takeWhile (\<lambda>(i, r). notna (pr_ei_activity_name r)) params_df))
         \<and> dom (fst (process_parameters env fw params_df reg sheet_name))
             = dom reg \<union> set (assigned_keys
                  (snd (snd (process_parameters env fw params_df reg sheet_name))))"
proof -
  let ?rows = "map (\<lambda>(index, row). (index, normalise_type env row)) params_df"
  have names: "map (\<lambda>(i, r). param_name_of sheet_name r)
                 (takeWhile (\<lambda>(i, r). notna (pr_ei_activity_name r)) ?rows)
               = map (\<lambda>(i, r). param_name_of sheet_name r)
                   (takeWhile (\<lambda>(i, r). notna (pr_ei_activity_name r)) params_df)"
    unfolding takeWhile_normalise by (simp add: split_beta comp_def)
  have d: "distinct (map (\<lambda>(i, r). param_name_of sheet_name r)
                 (takeWhile (\<lambda>(i, r). notna (pr_ei_activity_name r)) ?rows))"
    using assms by (simp only: names distinct_param_names)
  have e: "map (\<lambda>(i, r). param_name_of sheet_name r)
                   (takeWhile (\<lambda>(i, r). notna (pr_ei_activity_name r)) params_df)
           = map (\<lambda>(i, r). sheet_name @ ''_'' @ str_cell (pr_parameter_number r))
                      (takeWhile (\<lambda>(i, r). notna (pr_ei_activity_name r)) params_df)"
    by (simp add: param_name_of_def)
  show ?thesis
    using process_rows_keys [of env sheet_name ?rows reg fw] d
    unfolding process_parameters_def names e by blast
qed

lemmas param_eval =
  process_parameters_def normalise_type_def param_step_def create_param_def enum_values_def
  param_name_of_def param_type_of_def type_tag_def lower_def strip_def is_space_def
  lower_char_def
  test_agb_def blank_param_row_def Let_def

theorem registry_keys_assigned_once_witness:
  "distinct (map (\<lambda>(i, r). str_cell (pr_parameter_number r))
               (takeWhile (\<lambda>(i, r). notna (pr_ei_activity_name r)) typed_sheet))
   \<and> distinct (assigned_keys
                 (snd (snd (process_parameters test_agb [] typed_sheet Map.empty ''S''))))"
proof -
  have h: "distinct (map (\<lambda>(i, r). str_cell (pr_parameter_number r))
               (takeWhile (\<lambda>(i, r). notna (pr_ei_activity_name r)) typed_sheet))"
    by (simp add: typed_sheet_def unsupported_row_def blank_param_row_def)
  from registry_keys_assigned_once [OF h, of test_agb "[]" Map.empty "''S''"] h
  show ?thesis by blast
qed

text \<open>
  Claim C4 as stated fails: two different rows with the same parameter number are
  given the same key, which is then assigned twice.
\<close>

theorem registry_key_assigned_twice:
  "distinct same_number_sheet
   \<and> \<not> distinct (assigned_keys
                   (snd (snd (process_parameters test_agb [] same_number_sheet Map.empty
                                ''S''))))"
  by (simp add: same_number_sheet_def param_eval)

lemma param_step_unsupported:
  assumes "param_type_of env r \<notin> {''float'', ''bool'', ''enum''}"
  shows "param_step env s r reg fw =
           (reg, fw, [Error_creating_parameter (param_name_of s r)
                        (ValueError (''Unsupported parameter type: '' @ param_type_of env r))])"
  using assms by (simp add: param_step_def create_param_def)

lemma process_parameters_append:
  assumes "\<forall>(i, r) \<in> set pre. notna (pr_ei_activity_name r)"
  shows "process_parameters env fw (pre @ post) reg s =
           (case process_parameters env fw pre reg s of
              (reg', fw', t) \<Rightarrow>
                (case process_parameters env fw' post reg' s of
                   (reg'', fw'', t') \<Rightarrow> (reg'', fw'', t @ t')))"
proof -
  have "\<forall>(i, r) \<in> set (map (\<lambda>(index, row). (index, normalise_type env row)) pre).
          notna (pr_ei_activity_name r)"
    using assms by (auto simp: split_beta)
  from process_rows_append [OF this] show ?thesis
    by (simp add: process_parameters_def)
qed

lemma set_map_takeWhile: "set (map f (takeWhile P xs)) \<subseteq> set (map f xs)"
  by (auto dest: set_takeWhileD)

lemma process_parameters_dom:
  "dom (fst (process_parameters env fw df reg s))
     \<subseteq> dom reg \<union> (\<lambda>(i, r). param_name_of s r) ` set df"
proof -
  let ?rows = "map (\<lambda>(index, row). (index, normalise_type env row)) df"
  have "map (\<lambda>(i, r). param_name_of s r) ?rows = map (\<lambda>(i, r). param_name_of s r) df"
    by (simp add: split_beta comp_def)
  moreover have "set (map (\<lambda>(i, r). param_name_of s r)
                   (takeWhile (\<lambda>(i, r). notna (pr_ei_activity_name r)) ?rows))
                 \<subseteq> set (map (\<lambda>(i, r). param_name_of s r) ?rows)"
    by (rule set_map_takeWhile)
  ultimately have "set (map (\<lambda>(i, r). param_name_of s r)
                (takeWhile (\<lambda>(i, r). notna (pr_ei_activity_name r)) ?rows))
             \<subseteq> (\<lambda>(i, r). param_name_of s r) ` set df"
    by (metis set_map)
  then show ?thesis
    using process_rows_keys [of env s ?rows reg fw]
    unfolding process_parameters_def by blast
qed

text \<open>
  Claim C7, as amended. A row of a parameter sheet that the loop reaches (no row above
  it is the terminator, and it is not the terminator itself) and whose type tag, as
  lines 43 and 47 strip and lower-case it, is none of \<open>float\<close>, \<open>bool\<close> and \<open>enum\<close>:
  the builder raises \<^verbatim>\<open>ValueError\<close>, catches it and prints it for that row; the run is
  the run over the rows above, then that line, then the run over the rows below from the
  registry and the framework state that the rows above left, so that the row assigns
  nothing in the registry and the rows below are processed as if the row were not
  there. The name of the row is absent from the registry after the run when the
  registry did not hold it before and no other row has the same parameter number.
\<close>

theorem unsupported_type_row_skipped:
  assumes "\<forall>(i, r) \<in> set pre. notna (pr_ei_activity_name r)"
      and "notna (pr_ei_activity_name row)"
      and "type_tag env row \<notin> {''float'', ''bool'', ''enum''}"
  shows "process_parameters env fw (pre @ (index, row) # post) reg sheet_name =
           (case process_parameters env fw pre reg sheet_name of
              (reg', fw', t) \<Rightarrow>
                (case process_parameters env fw' post reg' sheet_name of
                   (reg'', fw'', t') \<Rightarrow>
                     (reg'', fw'',
                      t @ Error_creating_parameter
                            (sheet_name @ ''_'' @ str_cell (pr_parameter_number row))
                            (ValueError (''Unsupported parameter type: '' @ type_tag env row))
                          # t')))
         \<and> (reg (sheet_name @ ''_'' @ str_cell (pr_parameter_number row)) = None
              \<and> (\<forall>(i, r) \<in> set (pre @ post).
                    str_cell (pr_parameter_number r) \<noteq> str_cell (pr_parameter_number row))
              \<longrightarrow> fst (process_parameters env fw (pre @ (index, row) # post) reg sheet_name)
                    (sheet_name @ ''_'' @ str_cell (pr_parameter_number row)) = None)"
proof -
  let ?name = "sheet_name @ ''_'' @ str_cell (pr_parameter_number row)"
  let ?err = "Error_creating_parameter ?name
                (ValueError (''Unsupported parameter type: '' @ type_tag env row))"
  obtain reg' fw' t where pre: "process_parameters env fw pre reg sheet_name = (reg', fw', t)"
    by (cases "process_parameters env fw pre reg sheet_name")
  obtain reg'' fw'' t' where
    post: "process_parameters env fw' post reg' sheet_name = (reg'', fw'', t')"
    by (cases "process_parameters env fw' post reg' sheet_name")
  have ty: "param_type_of env (normalise_type env row) \<notin> {''float'', ''bool'', ''enum''}"
    using assms(3) by (simp add: type_tag_def)
  have one: "process_parameters env fw' ((index, row) # post) reg' sheet_name
               = (reg'', fw'', ?err # t')"
    using assms(2) post
    by (simp add: process_parameters_def param_step_unsupported [OF ty] type_tag_def
                  param_name_of_def)
  have run: "process_parameters env fw (pre @ (index, row) # post) reg sheet_name
               = (reg'', fw'', t @ ?err # t')"
    by (simp add: process_parameters_append [OF assms(1)] pre one)
  have absent: "reg'' ?name = None"
    if r: "reg ?name = None"
    and o: "\<forall>(i, r) \<in> set (pre @ post).
              str_cell (pr_parameter_number r) \<noteq> str_cell (pr_parameter_number row)"
  proof -
    have n: "?name \<notin> (\<lambda>(i, r). param_name_of sheet_name r) ` set (pre @ post)"
      using o by (force simp: param_name_of_def)
    have "?name \<notin> dom reg'"
      using process_parameters_dom [of env fw pre reg sheet_name] r n
      by (auto simp: pre)
    then have "?name \<notin> dom reg''"
      using process_parameters_dom [of env fw' post reg' sheet_name] n
      by (auto simp: post)
    then show ?thesis by blast
  qed
  show ?thesis
    using absent by (simp add: run pre post)
qed

theorem unsupported_type_row_skipped_witness:
  "type_tag test_agb unsupported_row = ''integer''
   \<and> Error_creating_parameter ''S_2'' (ValueError ''Unsupported parameter type: integer'')
       \<in> set (snd (snd (process_parameters test_agb [] typed_sheet Map.empty ''S'')))
   \<and> fst (process_parameters test_agb [] typed_sheet Map.empty ''S'') ''S_2'' = None
   \<and> assigned_keys (snd (snd (process_parameters test_agb [] typed_sheet Map.empty ''S'')))
       = [''S_1'', ''S_3'']"
proof -
  let ?pre = "[(0, blank_param_row\<lparr> pr_ei_activity_name := Val ''steel'',
                     pr_parameter_number := Val ''1'', pr_type := Val '' Bool '' \<rparr>)]"
  let ?post = "[(2, blank_param_row\<lparr> pr_ei_activity_name := Val ''wood'',
                      pr_parameter_number := Val ''3'', pr_type := Val ''ENUM'' \<rparr>)]"
  have sheet: "typed_sheet = ?pre @ (1, unsupported_row) # ?post"
    by (simp add: typed_sheet_def)
  have h1: "\<forall>(i, r) \<in> set ?pre. notna (pr_ei_activity_name r)"
    by (simp add: blank_param_row_def)
  have h2: "notna (pr_ei_activity_name unsupported_row)"
    by (simp add: unsupported_row_def blank_param_row_def)
  have ty: "type_tag test_agb unsupported_row = ''integer''"
    by (simp add: unsupported_row_def param_eval)
  have h3: "type_tag test_agb unsupported_row \<notin> {''float'', ''bool'', ''enum''}"
    by (simp add: ty)
  have nm: "str_cell (pr_parameter_number unsupported_row) = ''2''"
    by (simp add: unsupported_row_def blank_param_row_def)
  have h4: "Map.empty (''S'' @ ''_'' @ str_cell (pr_parameter_number unsupported_row)) = None
            \<and> (\<forall>(i, r) \<in> set (?pre @ ?post).
                  str_cell (pr_parameter_number r)
                    \<noteq> str_cell (pr_parameter_number unsupported_row))"
    by (simp add: nm blank_param_row_def)
  have pre: "process_parameters test_agb [] ?pre Map.empty ''S''
               = ([''S_1'' \<mapsto> 1], [], [Call_newBoolParam ''S_1'' NaN, Parameter_created ''S_1''])"
    by (simp add: param_eval)
  have post: "process_parameters test_agb [] ?post [''S_1'' \<mapsto> 1] ''S''
               = ([''S_1'' \<mapsto> 1, ''S_3'' \<mapsto> 1], [],
                  [Call_newEnumParam ''S_3'' NaN NaN NaN, Parameter_created ''S_3''])"
    by (simp add: param_eval)
  note inst = unsupported_type_row_skipped
               [OF h1 h2 h3, of "[]" 1 ?post Map.empty "''S''", folded sheet]
  from inst [THEN conjunct1]
  have run: "snd (snd (process_parameters test_agb [] typed_sheet Map.empty ''S''))
               = [Call_newBoolParam ''S_1'' NaN, Parameter_created ''S_1'',
                  Error_creating_parameter ''S_2''
                    (ValueError ''Unsupported parameter type: integer''),
                  Call_newEnumParam ''S_3'' NaN NaN NaN, Parameter_created ''S_3'']"
    by (simp add: pre post ty nm)
  from inst [THEN conjunct2] h4
  have absent: "fst (process_parameters test_agb [] typed_sheet Map.empty ''S'') ''S_2'' = None"
    by (simp add: nm sheet)
  show ?thesis
    using ty absent by (simp add: run)
qed

text \<open>
  Claim C7 as stated fails: the name of a row with an unsupported type is in the
  registry after the run when a row above it has the same parameter number and a
  supported type.
\<close>

theorem unsupported_type_name_registered:
  "type_tag test_agb unsupported_row = ''integer''
   \<and> process_parameters test_agb [] shared_number_sheet Map.empty ''S''
       = ([''S_2'' \<mapsto> 1], [],
          [Call_newBoolParam ''S_2'' NaN, Parameter_created ''S_2'',
           Error_creating_parameter ''S_2''
             (ValueError ''Unsupported parameter type: integer'')])
   \<and> fst (process_parameters test_agb [] shared_number_sheet Map.empty ''S'') ''S_2''
       = Some 1"
  by (simp add: shared_number_sheet_def unsupported_row_def param_eval)

section \<open>Properties of a whole run\<close>

lemma loc_unique:
  assumes "distinct (map fst meta)" and "(n, m) \<in> set meta"
  shows "loc meta n = [m]"
  using assms
proof (induction meta)
  case Nil
  then show ?case by simp
next
  case (Cons p meta)
  obtain n' m' where p: "p = (n', m')" by (cases p)
  have none: "loc meta n' = []"
    using Cons.prems(1) by (auto simp: p loc_def filter_empty_conv image_iff)
  show ?case
  proof (cases "n' = n")
    case True
    with Cons.prems have "m' = m"
      by (auto simp: p image_iff)
    with True none show ?thesis
      by (simp add: p loc_def)
  next
    case False
    with Cons.prems have "(n, m) \<in> set meta" "distinct (map fst meta)"
      by (auto simp: p)
    from Cons.IH [OF this(2) this(1)] False show ?thesis
      by (simp add: p loc_def)
  qed
qed

text \<open>
  Over rows of a table with different labels, whose sheets the dictionary holds, the
  loop raises nothing and is the run of the sheets one after the other.
\<close>

lemma sheets_loop_run:
  assumes "distinct (map fst meta)"
      and "set rows \<subseteq> set meta"
      and "\<forall>(n, m) \<in> set rows. dfs n = Some (sheet_of n)"
  shows "sheets_loop env meta dfs db reg (map fst rows) fw =
           (case run_sheets env db reg dfs sheet_of rows fw of
              (fw', t) \<Rightarrow> (None, fw', t))"
  using assms(2,3)
proof (induction rows arbitrary: fw)
  case Nil
  then show ?case by simp
next
  case (Cons p rows)
  obtain n m where p: "p = (n, m)" by (cases p)
  from Cons.prems have df: "dfs n = Some (sheet_of n)" and mem: "(n, m) \<in> set meta"
    and rest: "set rows \<subseteq> set meta" "\<forall>(n, m) \<in> set rows. dfs n = Some (sheet_of n)"
    by (auto simp: p)
  have l: "loc meta n = [m]"
    by (rule loc_unique [OF assms(1) mem])
  show ?case
    by (simp add: p df l split_beta Cons.IH [OF rest])
qed

lemma create_custom_activities_run:
  assumes "distinct (map fst meta)"
      and "\<forall>(n, m) \<in> set meta. dfs n = Some (sheet_of n)"
  shows "create_custom_activities env fw meta dfs db reg =
           (case run_sheets env db reg dfs sheet_of
                   (sort_key (\<lambda>(sheet_name, meta). m_priority meta) meta) fw of
              (fw', t) \<Rightarrow> (None, fw', t @ [Finished_all]))"
proof -
  let ?rows = "sort_key (\<lambda>(sheet_name, meta). m_priority meta) meta"
  have "set ?rows \<subseteq> set meta" and "\<forall>(n, m) \<in> set ?rows. dfs n = Some (sheet_of n)"
    using assms(2) by simp_all
  from sheets_loop_run [OF assms(1) this, of env db reg fw] show ?thesis
    by (simp add: create_custom_activities_def sorted_sheets_def split_beta)
qed

text \<open>
  For every table and every dictionary, the loop is the run of the rows it can take up,
  one after the other, and ends with the exception that the first other row raises.
\<close>

lemma loc_member:
  "(n, m) \<in> set meta \<Longrightarrow> m \<in> set (loc meta n)"
  by (force simp: loc_def)

lemma sheets_loop_prefix:
  assumes "set rows \<subseteq> set meta"
  shows "sheets_loop env meta dfs db reg (map fst rows) fw =
           (case run_sheets env db reg dfs (sheet_in dfs)
                   (takeWhile (readable meta dfs) rows) fw of
              (fw', t) \<Rightarrow>
                (case dropWhile (readable meta dfs) rows of
                   [] \<Rightarrow> (None, fw', t)
                 | (sheet_name, m) # rest \<Rightarrow>
                     (Some (if dfs sheet_name = None then KeyError sheet_name
                            else ValueError ''The truth value of a Series is ambiguous''),
                      fw', t)))"
  using assms
proof (induction rows arbitrary: fw)
  case Nil
  then show ?case by simp
next
  case (Cons p rows)
  obtain n m where p: "p = (n, m)" by (cases p)
  from Cons.prems have mem: "(n, m) \<in> set meta" and rest: "set rows \<subseteq> set meta"
    by (auto simp: p)
  have m: "m \<in> set (loc meta n)"
    by (rule loc_member [OF mem])
  show ?case
  proof (cases "dfs n")
    case None
    then show ?thesis
      by (simp add: p readable_def)
  next
    case (Some df)
    show ?thesis
    proof (cases "loc meta n")
      case Nil
      with m show ?thesis by simp
    next
      case (Cons m1 ms)
      show ?thesis
      proof (cases ms)
        case Nil
        with Cons m have l: "loc meta n = [m]" by simp
        have r: "readable meta dfs (n, m)"
          by (simp add: readable_def Some l)
        have si: "sheet_in dfs n = df"
          by (simp add: sheet_in_def Some)
        define T where "T = takeWhile (readable meta dfs) rows"
        define D where "D = dropWhile (readable meta dfs) rows"
        have ih: "sheets_loop env meta dfs db reg (map fst rows) fw1 =
                    (case run_sheets env db reg dfs (sheet_in dfs) T fw1 of
                       (fw', t) \<Rightarrow>
                         (case D of
                            [] \<Rightarrow> (None, fw', t)
                          | (sheet_name, m) # rest \<Rightarrow>
                              (Some (if dfs sheet_name = None then KeyError sheet_name
                                     else ValueError
                                            ''The truth value of a Series is ambiguous''),
                               fw', t)))" for fw1
          unfolding T_def D_def by (rule Cons.IH [OF rest])
        have tw: "takeWhile (readable meta dfs) (p # rows) = (n, m) # T"
          and dw: "dropWhile (readable meta dfs) (p # rows) = D"
          using r by (simp_all add: p T_def D_def)
        show ?thesis
          unfolding tw dw
          by (cases D) (simp_all add: p Some l si split_beta ih)
      next
        case (Cons m2 ms')
        with \<open>loc meta n = m1 # ms\<close> have l: "loc meta n = m1 # m2 # ms'" by simp
        have r: "\<not> readable meta dfs (n, m)"
          by (simp add: readable_def l)
        show ?thesis
          by (simp add: p Some l r)
      qed
    qed
  qed
qed

text \<open>
  Claim C6. The builder takes the rows of the metadata table sorted by priority, from
  the first on, and does for each, from the framework state that the one before left,
  what a custom or a modified sheet does (its row loop, its library calls, its lines).
  It stops at the first row whose sheet the dictionary lacks or whose label the table
  has more than once, with the exception of line 107 or 108, and prints the closing
  line when there is no such row. The sorted table holds the rows of the table, with
  ascending priorities.
\<close>

theorem sheets_processed_by_priority:
  "create_custom_activities env fw meta dfs db reg =
     (case run_sheets env db reg dfs (sheet_in dfs)
             (takeWhile (readable meta dfs)
                (sort_key (\<lambda>(sheet_name, meta). m_priority meta) meta)) fw of
        (fw', t) \<Rightarrow>
          (case dropWhile (readable meta dfs)
                  (sort_key (\<lambda>(sheet_name, meta). m_priority meta) meta) of
             [] \<Rightarrow> (None, fw', t @ [Finished_all])
           | (sheet_name, m) # rest \<Rightarrow>
               (Some (if dfs sheet_name = None then KeyError sheet_name
                      else ValueError ''The truth value of a Series is ambiguous''),
                fw', t)))
   \<and> sorted (map (\<lambda>(sheet_name, meta). m_priority meta)
               (sort_key (\<lambda>(sheet_name, meta). m_priority meta) meta))
   \<and> mset (sort_key (\<lambda>(sheet_name, meta). m_priority meta) meta) = mset meta"
proof -
  define rows where "rows = sort_key (\<lambda>(sheet_name, meta). m_priority meta) meta"
  define D where "D = dropWhile (readable meta dfs) rows"
  obtain fw' t where
    r: "run_sheets env db reg dfs (sheet_in dfs) (takeWhile (readable meta dfs) rows) fw
          = (fw', t)"
    by (cases "run_sheets env db reg dfs (sheet_in dfs)
                 (takeWhile (readable meta dfs) rows) fw")
  have sub: "set rows \<subseteq> set meta"
    by (simp add: rows_def)
  have ss: "sorted_sheets meta = map fst rows"
    by (simp add: sorted_sheets_def rows_def)
  have l0: "sheets_loop env meta dfs db reg (map fst rows) fw =
              (case run_sheets env db reg dfs (sheet_in dfs)
                      (takeWhile (readable meta dfs) rows) fw of
                 (fw', t) \<Rightarrow>
                   (case D of
                      [] \<Rightarrow> (None, fw', t)
                    | (sheet_name, m) # rest \<Rightarrow>
                        (Some (if dfs sheet_name = None then KeyError sheet_name
                               else ValueError ''The truth value of a Series is ambiguous''),
                         fw', t)))"
    unfolding D_def by (rule sheets_loop_prefix [OF sub])
  have l: "sheets_loop env meta dfs db reg (sorted_sheets meta) fw =
             (case D of
                [] \<Rightarrow> (None, fw', t)
              | (sheet_name, m) # rest \<Rightarrow>
                  (Some (if dfs sheet_name = None then KeyError sheet_name
                         else ValueError ''The truth value of a Series is ambiguous''),
                   fw', t))"
    unfolding ss l0 r by simp
  have "create_custom_activities env fw meta dfs db reg =
          (case D of
             [] \<Rightarrow> (None, fw', t @ [Finished_all])
           | (sheet_name, m) # rest \<Rightarrow>
               (Some (if dfs sheet_name = None then KeyError sheet_name
                      else ValueError ''The truth value of a Series is ambiguous''),
                fw', t))"
    unfolding create_custom_activities_def l
    by (cases D) (simp_all add: split_beta)
  then show ?thesis
    using r by (simp add: D_def rows_def sorted_sort_key)
qed

lemmas run_eval =
  custom_sheet_def modified_sheet_def custom_step_def find_activity_def try_modified_def
  try_custom_def base_lookup_def accumulate_def parameter_expression_of_def test_agb_def
  Let_def

theorem sheets_processed_by_priority_witness:
  "map (\<lambda>(sheet_name, meta). m_priority meta) priorities_table = [2, 1, 3]
   \<and> map fst priorities_table = [''A'', ''B'', ''C'']
   \<and> create_custom_activities test_agb [] priorities_table priorities_sheets ''db''
         two_three_registry
       = (None, [''A'', ''B''],
          [Call_findTechAct (Val ''steel'') (Some (Val ''FR'')),
           Call_copyActivity ''db'' ''steel'' ''B'',
           Copied_activity ''B'',
           Error_evaluating ''B_1'' (Val ''steel'') (NameError ''B_1''),
           Error_evaluating ''B_nan'' NaN (NameError ''B_nan''),
           Error_evaluating ''B_3'' (Val ''copper'') (NameError ''B_3''),
           Call_updateExchanges ''B'' [],
           Updated_exchanges ''B'',
           Processing_sheet ''A'',
           Call_findTechAct (Val ''wood'') None,
           Failed_ecoinvent (Val ''wood'') NaN (FrameworkError ''No activity found''),
           Skipping_row_unresolved 0 ''A'',
           Call_findTechAct (Val ''steel'') None,
           Error_parameter_expression 1 (NameError ''A_7''),
           Call_newActivity ''db'' (Val ''A'') (Val ''kg'') [],
           Call_findTechAct (Val ''wood'') (Some NaN),
           Error_copying_or_updating ''C'' (FrameworkError ''No activity found''),
           Finished_all])"
proof -
  have p: "map (\<lambda>(sheet_name, meta). m_priority meta) priorities_table = [2, 1, 3]"
    by (simp add: priorities_table_def sheet_meta_def modified_meta_def failing_meta_def)
  have l: "map fst priorities_table = [''A'', ''B'', ''C'']"
    by (simp add: priorities_table_def)
  have s: "sort_key (\<lambda>(sheet_name, meta). m_priority meta) priorities_table
             = [(''B'', modified_meta), (''A'', sheet_meta\<lparr> m_priority := 2 \<rparr>),
              (''C'', failing_meta)]"
    by (simp add: priorities_table_def sheet_meta_def modified_meta_def failing_meta_def)
  have tw: "takeWhile (readable priorities_table priorities_sheets)
              [(''B'', modified_meta), (''A'', sheet_meta\<lparr> m_priority := 2 \<rparr>),
              (''C'', failing_meta)]
            = [(''B'', modified_meta), (''A'', sheet_meta\<lparr> m_priority := 2 \<rparr>),
              (''C'', failing_meta)]"
    and dw: "dropWhile (readable priorities_table priorities_sheets)
              [(''B'', modified_meta), (''A'', sheet_meta\<lparr> m_priority := 2 \<rparr>),
              (''C'', failing_meta)]
            = []"
    by (simp_all add: readable_def loc_def priorities_table_def priorities_sheets_def)
  have r: "run_sheets test_agb ''db'' two_three_registry priorities_sheets
             (sheet_in priorities_sheets)
             [(''B'', modified_meta), (''A'', sheet_meta\<lparr> m_priority := 2 \<rparr>),
              (''C'', failing_meta)] []
           = ([''A'', ''B''],
          [Call_findTechAct (Val ''steel'') (Some (Val ''FR'')),
           Call_copyActivity ''db'' ''steel'' ''B'',
           Copied_activity ''B'',
           Error_evaluating ''B_1'' (Val ''steel'') (NameError ''B_1''),
           Error_evaluating ''B_nan'' NaN (NameError ''B_nan''),
           Error_evaluating ''B_3'' (Val ''copper'') (NameError ''B_3''),
           Call_updateExchanges ''B'' [],
           Updated_exchanges ''B'',
           Processing_sheet ''A'',
           Call_findTechAct (Val ''wood'') None,
           Failed_ecoinvent (Val ''wood'') NaN (FrameworkError ''No activity found''),
           Skipping_row_unresolved 0 ''A'',
           Call_findTechAct (Val ''steel'') None,
           Error_parameter_expression 1 (NameError ''A_7''),
           Call_newActivity ''db'' (Val ''A'') (Val ''kg'') [],
           Call_findTechAct (Val ''wood'') (Some NaN),
           Error_copying_or_updating ''C'' (FrameworkError ''No activity found'')])"
    by (simp add: run_eval sheet_in_def priorities_sheets_def sheet_meta_def
          modified_meta_def failing_meta_def skipped_sheet_def trailing_sheet_def
          two_three_registry_def)
  from sheets_processed_by_priority
         [where env = test_agb and fw = "[]" and meta = priorities_table
            and dfs = priorities_sheets and db = "''db''" and reg = two_three_registry,
          THEN conjunct1]
  have "create_custom_activities test_agb [] priorities_table priorities_sheets ''db''
          two_three_registry
        = (None, [''A'', ''B''],
          [Call_findTechAct (Val ''steel'') (Some (Val ''FR'')),
           Call_copyActivity ''db'' ''steel'' ''B'',
           Copied_activity ''B'',
           Error_evaluating ''B_1'' (Val ''steel'') (NameError ''B_1''),
           Error_evaluating ''B_nan'' NaN (NameError ''B_nan''),
           Error_evaluating ''B_3'' (Val ''copper'') (NameError ''B_3''),
           Call_updateExchanges ''B'' [],
           Updated_exchanges ''B'',
           Processing_sheet ''A'',
           Call_findTechAct (Val ''wood'') None,
           Failed_ecoinvent (Val ''wood'') NaN (FrameworkError ''No activity found''),
           Skipping_row_unresolved 0 ''A'',
           Call_findTechAct (Val ''steel'') None,
           Error_parameter_expression 1 (NameError ''A_7''),
           Call_newActivity ''db'' (Val ''A'') (Val ''kg'') [],
           Call_findTechAct (Val ''wood'') (Some NaN),
           Error_copying_or_updating ''C'' (FrameworkError ''No activity found''),
           Finished_all])"
    unfolding s tw dw r by simp
  with p l show ?thesis
    by blast
qed

section \<open>Failures of single units of work\<close>

lemma custom_rows_continue:
  "(\<forall>(i, r) \<in> set pre. notna (r_ei_activity_name r)) \<and> notna (r_ei_activity_name row) \<longrightarrow>
   custom_rows env fw db reg s (pre @ (index, row) # post) acc =
     (case custom_rows env fw db reg s pre acc of
        (acc1, t1) \<Rightarrow>
          (case custom_step env fw db reg s index row acc1 of
             (acc2, t2) \<Rightarrow>
               (case custom_rows env fw db reg s post acc2 of
                  (acc3, t3) \<Rightarrow> (acc3, t1 @ t2 @ t3))))"
proof
  assume a: "(\<forall>(i, r) \<in> set pre. notna (r_ei_activity_name r)) \<and> notna (r_ei_activity_name row)"
  then have p: "\<forall>(i, r) \<in> set pre. notna (r_ei_activity_name r)" by blast
  show "custom_rows env fw db reg s (pre @ (index, row) # post) acc =
     (case custom_rows env fw db reg s pre acc of
        (acc1, t1) \<Rightarrow>
          (case custom_step env fw db reg s index row acc1 of
             (acc2, t2) \<Rightarrow>
               (case custom_rows env fw db reg s post acc2 of
                  (acc3, t3) \<Rightarrow> (acc3, t1 @ t2 @ t3))))"
    using a by (simp add: custom_rows_append [OF p] split_beta)
qed

lemma foreground_rows_continue:
  "(\<forall>(i, r) \<in> set pre. notna (r_ei_activity_name r)) \<and> notna (r_ei_activity_name row) \<longrightarrow>
   foreground_rows env s db reg (pre @ (index, row) # post) fw =
     (case foreground_rows env s db reg pre fw of
        (fw1, t1) \<Rightarrow>
          (case foreground_step env s db reg row fw1 of
             (fw2, t2) \<Rightarrow>
               (case foreground_rows env s db reg post fw2 of
                  (fw3, t3) \<Rightarrow> (fw3, t1 @ t2 @ t3))))"
proof
  assume a: "(\<forall>(i, r) \<in> set pre. notna (r_ei_activity_name r)) \<and> notna (r_ei_activity_name row)"
  then have p: "\<forall>(i, r) \<in> set pre. notna (r_ei_activity_name r)" by blast
  show "foreground_rows env s db reg (pre @ (index, row) # post) fw =
     (case foreground_rows env s db reg pre fw of
        (fw1, t1) \<Rightarrow>
          (case foreground_step env s db reg row fw1 of
             (fw2, t2) \<Rightarrow>
               (case foreground_rows env s db reg post fw2 of
                  (fw3, t3) \<Rightarrow> (fw3, t1 @ t2 @ t3))))"
    using a by (simp add: foreground_rows_append [OF p] split_beta)
qed

lemma process_rows_continue:
  "(\<forall>(i, r) \<in> set ppre. notna (pr_ei_activity_name r)) \<and> notna (pr_ei_activity_name prow) \<longrightarrow>
   process_rows env s (ppre @ (index, prow) # ppost) preg fw =
     (case process_rows env s ppre preg fw of
        (reg1, fw1, t1) \<Rightarrow>
          (case param_step env s prow reg1 fw1 of
             (reg2, fw2, t2) \<Rightarrow>
               (case process_rows env s ppost reg2 fw2 of
                  (reg3, fw3, t3) \<Rightarrow> (reg3, fw3, t1 @ t2 @ t3))))"
proof
  assume a: "(\<forall>(i, r) \<in> set ppre. notna (pr_ei_activity_name r))
             \<and> notna (pr_ei_activity_name prow)"
  then have p: "\<forall>(i, r) \<in> set ppre. notna (pr_ei_activity_name r)" by blast
  show "process_rows env s (ppre @ (index, prow) # ppost) preg fw =
     (case process_rows env s ppre preg fw of
        (reg1, fw1, t1) \<Rightarrow>
          (case param_step env s prow reg1 fw1 of
             (reg2, fw2, t2) \<Rightarrow>
               (case process_rows env s ppost reg2 fw2 of
                  (reg3, fw3, t3) \<Rightarrow> (reg3, fw3, t1 @ t2 @ t3))))"
    using a by (simp add: process_rows_append [OF p] split_beta)
qed

lemma modified_rows_append:
  "modified_rows env reg name (pre @ post) d =
     (case modified_rows env reg name pre d of
        (d1, t1) \<Rightarrow>
          (case modified_rows env reg name post d1 of
             (d2, t2) \<Rightarrow> (d2, t1 @ t2)))"
proof (induction pre arbitrary: d)
  case Nil
  then show ?case by (simp add: split_beta)
next
  case (Cons p pre)
  obtain i r where p: "p = (i, r)" by (cases p)
  show ?case
    by (simp add: p Let_def split_beta Cons.IH split: sum.splits)
qed

lemma modified_row_evaluation_fails:
  "eval_in env (parameter_expression_of name row) reg = Inl e \<longrightarrow>
   modified_rows env reg name (pre @ (index, row) # post) d =
     (case modified_rows env reg name pre d of
        (d1, t1) \<Rightarrow>
          (case modified_rows env reg name post d1 of
             (d2, t2) \<Rightarrow>
               (d2, t1 @ Error_evaluating (parameter_expression_of name row)
                            (r_ei_activity_name row) e # t2)))"
  by (simp add: modified_rows_append [of env reg name pre] Let_def split_beta)

lemma custom_row_lookup_fails:
  "fst (find_activity env fw (r_ei_activity_name row) (r_loc row) (r_custom_process_name row)
          (r_modified_process_name row) db) = None \<longrightarrow>
   custom_step env fw db reg s index row acc =
     (acc, snd (find_activity env fw (r_ei_activity_name row) (r_loc row)
                  (r_custom_process_name row) (r_modified_process_name row) db)
           @ [Skipping_row_unresolved index s])"
  by (simp add: custom_step_def split_beta split: option.splits)

lemma custom_row_evaluation_fails:
  "fst (find_activity env fw (r_ei_activity_name row) (r_loc row) (r_custom_process_name row)
          (r_modified_process_name row) db) = Some a
   \<and> eval_in env (parameter_expression_of s row) reg = Inl e \<longrightarrow>
   custom_step env fw db reg s index row acc =
     (acc, snd (find_activity env fw (r_ei_activity_name row) (r_loc row)
                  (r_custom_process_name row) (r_modified_process_name row) db)
           @ [Error_parameter_expression index e])"
  by (simp add: custom_step_def split_beta split: option.splits)

lemma custom_sheet_create_fails:
  "custom_rows env fw db reg s df [] = (acc, t)
   \<and> newActivity env fw db (Val s) (m_unit meta) acc = (Some e, fw') \<longrightarrow>
   custom_sheet env fw db reg s meta df =
     (fw', Processing_sheet s # t
           @ [Call_newActivity db (Val s) (m_unit meta) acc, Error_creating_custom s e])"
  by (simp add: custom_sheet_def)

lemma foreground_row_lookup_fails:
  "fst (find_activity env fw (r_ei_activity_name row) (r_loc row) (r_custom_process_name row)
          (r_modified_process_name row) db) = None \<longrightarrow>
   foreground_step env s db reg row fw =
     (fw, snd (find_activity env fw (r_ei_activity_name row) (r_loc row)
                 (r_custom_process_name row) (r_modified_process_name row) db)
          @ [Skipping_creation (r_lca_algebraic_name row)])"
  by (simp add: foreground_step_def Let_def split_beta split: option.splits)

lemma foreground_row_evaluation_fails:
  "fst (find_activity env fw (r_ei_activity_name row) (r_loc row) (r_custom_process_name row)
          (r_modified_process_name row) db) = Some a
   \<and> eval_in env (parameter_expression_of s row) reg = Inl e \<longrightarrow>
   foreground_step env s db reg row fw =
     (fw, snd (find_activity env fw (r_ei_activity_name row) (r_loc row)
                 (r_custom_process_name row) (r_modified_process_name row) db)
          @ [Error_foreground_expression (r_lca_algebraic_name row) e])"
  by (simp add: foreground_step_def Let_def split_beta split: option.splits)

lemma foreground_row_create_fails:
  "fst (find_activity env fw (r_ei_activity_name row) (r_loc row) (r_custom_process_name row)
          (r_modified_process_name row) db) = Some a
   \<and> eval_in env (parameter_expression_of s row) reg = Inr v
   \<and> newActivity env fw db (r_lca_algebraic_name row) (Val ''unit'') [(a, v)] = (Some e, fw')
   \<longrightarrow>
   foreground_step env s db reg row fw =
     (fw', snd (find_activity env fw (r_ei_activity_name row) (r_loc row)
                  (r_custom_process_name row) (r_modified_process_name row) db)
           @ [Call_newActivity db (r_lca_algebraic_name row) (Val ''unit'') [(a, v)],
              Error_creating_activity (r_lca_algebraic_name row) e])"
  by (simp add: foreground_step_def Let_def split_beta split: option.splits)

lemma modified_sheet_lookup_fails:
  "findTechAct env fw (m_original_ei_activity_name meta)
     (Some (m_original_ei_activity_location meta)) = Inl e \<longrightarrow>
   modified_sheet env fw db reg name meta dfs =
     (fw, [Call_findTechAct (m_original_ei_activity_name meta)
             (Some (m_original_ei_activity_location meta)),
           Error_copying_or_updating name e])"
  by (simp add: modified_sheet_def)

lemma modified_sheet_lookup_none:
  "findTechAct env fw (m_original_ei_activity_name meta)
     (Some (m_original_ei_activity_location meta)) = Inr None \<longrightarrow>
   modified_sheet env fw db reg name meta dfs =
     (fw, [Call_findTechAct (m_original_ei_activity_name meta)
             (Some (m_original_ei_activity_location meta)),
           Skipping_copy name])"
  by (simp add: modified_sheet_def)

lemma modified_sheet_copy_fails:
  "findTechAct env fw (m_original_ei_activity_name meta)
     (Some (m_original_ei_activity_location meta)) = Inr (Some original)
   \<and> copyActivity env fw db original name = (Inl e, fw') \<longrightarrow>
   modified_sheet env fw db reg name meta dfs =
     (fw', [Call_findTechAct (m_original_ei_activity_name meta)
              (Some (m_original_ei_activity_location meta)),
            Call_copyActivity db original name,
            Error_copying_or_updating name e])"
  by (simp add: modified_sheet_def)

lemma modified_sheet_update_fails:
  "findTechAct env fw (m_original_ei_activity_name meta)
     (Some (m_original_ei_activity_location meta)) = Inr (Some original)
   \<and> copyActivity env fw db original name = (Inr new_activity, fw')
   \<and> dfs name = Some sheet_data
   \<and> modified_rows env reg name sheet_data [] = (exchanges_dict, t)
   \<and> updateExchanges env fw' new_activity exchanges_dict = (Some e, fw'') \<longrightarrow>
   modified_sheet env fw db reg name meta dfs =
     (fw'', [Call_findTechAct (m_original_ei_activity_name meta)
               (Some (m_original_ei_activity_location meta)),
             Call_copyActivity db original name,
             Copied_activity name]
            @ t
            @ [Call_updateExchanges new_activity exchanges_dict, Error_updating name e])"
  by (simp add: modified_sheet_def)

lemma param_row_unsupported:
  "param_type_of env prow \<notin> {''float'', ''bool'', ''enum''} \<longrightarrow>
   param_step env s prow preg fw =
     (preg, fw, [Error_creating_parameter (param_name_of s prow)
                   (ValueError (''Unsupported parameter type: '' @ param_type_of env prow))])"
  by (simp add: param_step_def create_param_def Let_def)

lemma param_row_try_fails:
  "create_param env fw (param_name_of s prow) (param_type_of env prow) prow = (Inl e, fw', t)
   \<longrightarrow>
   param_step env s prow preg fw =
     (preg, fw', t @ [Error_creating_parameter (param_name_of s prow) e])"
  by (simp add: param_step_def Let_def)

lemma param_row_create_fails:
  "param_type_of env prow = ''bool''
   \<and> newBoolParam env fw (param_name_of s prow) (pr_default prow) = (Inl e, fw') \<longrightarrow>
   param_step env s prow preg fw =
     (preg, fw', [Call_newBoolParam (param_name_of s prow) (pr_default prow),
                  Error_creating_parameter (param_name_of s prow) e])"
  by (simp add: param_step_def create_param_def Let_def)

lemma create_foreground_returns:
  "foregrounds_All selected = Some fdf \<longrightarrow>
   create_foreground env fw foregrounds_All selected db reg =
     (case foreground_rows env selected db reg fdf fw of (fw', t) \<Rightarrow> (None, fw', t))"
  by (simp add: create_foreground_def)

lemma create_custom_activities_returns:
  "distinct (map fst table) \<and> (\<forall>(n, m) \<in> set table. dfs n = Some (sheet_of n)) \<longrightarrow>
   create_custom_activities env fw table dfs db reg =
     (case run_sheets env db reg dfs sheet_of
             (sort_key (\<lambda>(sheet_name, meta). m_priority meta) table) fw of
        (fw', t) \<Rightarrow> (None, fw', t @ [Finished_all]))"
  using create_custom_activities_run [of table dfs sheet_of env fw db reg] by blast

text \<open>
  Claim C5, as amended. When the labels of the metadata table differ and the dictionary
  of data frames holds every sheet of the table, the activity builder raises nothing,
  takes the sheets one after the other and prints its closing line; when the dictionary
  of foreground sheets holds the selected sheet, the foreground builder raises nothing.
  In each of the three loops that test the terminator, a row that the loop reaches is
  followed by the rows below it, whatever the row did; the loop over the rows of a
  modified sheet goes on after a failed evaluation, which it logs. Each failure of one
  unit of work is logged with its error and leaves the registry, the accumulated
  exchanges or the dictionary of exchanges as they were: an unsupported parameter type,
  any exception of the block that makes a parameter and a failed creation of a bool
  parameter; on a custom sheet a row whose activity is not
  found, a row whose expression fails and a failed creation of the activity; on a
  modified sheet a failed lookup of the original activity, a lookup that finds nothing,
  a failed copy and a failed update; on a foreground sheet a row whose activity is not
  found, a row whose expression fails and a failed creation.
\<close>

theorem failures_logged_and_run_continues:
  "(distinct (map fst table) \<and> (\<forall>(n, m) \<in> set table. dfs n = Some (sheet_of n)) \<longrightarrow>
      create_custom_activities env fw table dfs db reg =
        (case run_sheets env db reg dfs sheet_of
                (sort_key (\<lambda>(sheet_name, meta). m_priority meta) table) fw of
           (fw', t) \<Rightarrow> (None, fw', t @ [Finished_all])))
   \<and> (foregrounds_All selected = Some fdf \<longrightarrow>
      create_foreground env fw foregrounds_All selected db reg =
        (case foreground_rows env selected db reg fdf fw of (fw', t) \<Rightarrow> (None, fw', t)))
   \<and> ((\<forall>(i, r) \<in> set ppre. notna (pr_ei_activity_name r)) \<and> notna (pr_ei_activity_name prow) \<longrightarrow>
      process_rows env s (ppre @ (index, prow) # ppost) preg fw =
        (case process_rows env s ppre preg fw of
           (reg1, fw1, t1) \<Rightarrow>
             (case param_step env s prow reg1 fw1 of
                (reg2, fw2, t2) \<Rightarrow>
                  (case process_rows env s ppost reg2 fw2 of
                     (reg3, fw3, t3) \<Rightarrow> (reg3, fw3, t1 @ t2 @ t3)))))
   \<and> ((\<forall>(i, r) \<in> set pre. notna (r_ei_activity_name r)) \<and> notna (r_ei_activity_name row) \<longrightarrow>
      custom_rows env fw db reg s (pre @ (index, row) # post) acc =
        (case custom_rows env fw db reg s pre acc of
           (acc1, t1) \<Rightarrow>
             (case custom_step env fw db reg s index row acc1 of
                (acc2, t2) \<Rightarrow>
                  (case custom_rows env fw db reg s post acc2 of
                     (acc3, t3) \<Rightarrow> (acc3, t1 @ t2 @ t3)))))
   \<and> ((\<forall>(i, r) \<in> set pre. notna (r_ei_activity_name r)) \<and> notna (r_ei_activity_name row) \<longrightarrow>
      foreground_rows env s db reg (pre @ (index, row) # post) fw =
        (case foreground_rows env s db reg pre fw of
           (fw1, t1) \<Rightarrow>
             (case foreground_step env s db reg row fw1 of
                (fw2, t2) \<Rightarrow>
                  (case foreground_rows env s db reg post fw2 of
                     (fw3, t3) \<Rightarrow> (fw3, t1 @ t2 @ t3)))))
   \<and> (eval_in env (parameter_expression_of name row) reg = Inl e \<longrightarrow>
      modified_rows env reg name (pre @ (index, row) # post) d =
        (case modified_rows env reg name pre d of
           (d1, t1) \<Rightarrow>
             (case modified_rows env reg name post d1 of
                (d2, t2) \<Rightarrow>
                  (d2, t1 @ Error_evaluating (parameter_expression_of name row)
                               (r_ei_activity_name row) e # t2))))
   \<and> (param_type_of env prow \<notin> {''float'', ''bool'', ''enum''} \<longrightarrow>
      param_step env s prow preg fw =
        (preg, fw, [Error_creating_parameter (param_name_of s prow)
                      (ValueError (''Unsupported parameter type: '' @ param_type_of env prow))]))
   \<and> (create_param env fw (param_name_of s prow) (param_type_of env prow) prow = (Inl e, fw', t)
      \<longrightarrow>
      param_step env s prow preg fw =
        (preg, fw', t @ [Error_creating_parameter (param_name_of s prow) e]))
   \<and> (param_type_of env prow = ''bool''
      \<and> newBoolParam env fw (param_name_of s prow) (pr_default prow) = (Inl e, fw') \<longrightarrow>
      param_step env s prow preg fw =
        (preg, fw', [Call_newBoolParam (param_name_of s prow) (pr_default prow),
                     Error_creating_parameter (param_name_of s prow) e]))
   \<and> (fst (find_activity env fw (r_ei_activity_name row) (r_loc row) (r_custom_process_name row)
             (r_modified_process_name row) db) = None \<longrightarrow>
      custom_step env fw db reg s index row acc =
        (acc, snd (find_activity env fw (r_ei_activity_name row) (r_loc row)
                     (r_custom_process_name row) (r_modified_process_name row) db)
              @ [Skipping_row_unresolved index s]))
   \<and> (fst (find_activity env fw (r_ei_activity_name row) (r_loc row) (r_custom_process_name row)
             (r_modified_process_name row) db) = Some a
      \<and> eval_in env (parameter_expression_of s row) reg = Inl e \<longrightarrow>
      custom_step env fw db reg s index row acc =
        (acc, snd (find_activity env fw (r_ei_activity_name row) (r_loc row)
                     (r_custom_process_name row) (r_modified_process_name row) db)
              @ [Error_parameter_expression index e]))
   \<and> (custom_rows env fw db reg s df [] = (acc, t)
      \<and> newActivity env fw db (Val s) (m_unit meta) acc = (Some e, fw') \<longrightarrow>
      custom_sheet env fw db reg s meta df =
        (fw', Processing_sheet s # t
              @ [Call_newActivity db (Val s) (m_unit meta) acc, Error_creating_custom s e]))
   \<and> (findTechAct env fw (m_original_ei_activity_name meta)
        (Some (m_original_ei_activity_location meta)) = Inl e \<longrightarrow>
      modified_sheet env fw db reg name meta dfs =
        (fw, [Call_findTechAct (m_original_ei_activity_name meta)
                (Some (m_original_ei_activity_location meta)),
              Error_copying_or_updating name e]))
   \<and> (findTechAct env fw (m_original_ei_activity_name meta)
        (Some (m_original_ei_activity_location meta)) = Inr None \<longrightarrow>
      modified_sheet env fw db reg name meta dfs =
        (fw, [Call_findTechAct (m_original_ei_activity_name meta)
                (Some (m_original_ei_activity_location meta)),
              Skipping_copy name]))
   \<and> (findTechAct env fw (m_original_ei_activity_name meta)
        (Some (m_original_ei_activity_location meta)) = Inr (Some original)
      \<and> copyActivity env fw db original name = (Inl e, fw') \<longrightarrow>
      modified_sheet env fw db reg name meta dfs =
        (fw', [Call_findTechAct (m_original_ei_activity_name meta)
                 (Some (m_original_ei_activity_location meta)),
               Call_copyActivity db original name,
               Error_copying_or_updating name e]))
   \<and> (findTechAct env fw (m_original_ei_activity_name meta)
        (Some (m_original_ei_activity_location meta)) = Inr (Some original)
      \<and> copyActivity env fw db original name = (Inr new_activity, fw')
      \<and> dfs name = Some sheet_data
      \<and> modified_rows env reg name sheet_data [] = (exchanges_dict, t)
      \<and> updateExchanges env fw' new_activity exchanges_dict = (Some e, fw'') \<longrightarrow>
      modified_sheet env fw db reg name meta dfs =
        (fw'', [Call_findTechAct (m_original_ei_activity_name meta)
                  (Some (m_original_ei_activity_location meta)),
                Call_copyActivity db original name,
                Copied_activity name]
               @ t
               @ [Call_updateExchanges new_activity exchanges_dict, Error_updating name e]))
   \<and> (fst (find_activity env fw (r_ei_activity_name row) (r_loc row) (r_custom_process_name row)
             (r_modified_process_name row) db) = None \<longrightarrow>
      foreground_step env s db reg row fw =
        (fw, snd (find_activity env fw (r_ei_activity_name row) (r_loc row)
                    (r_custom_process_name row) (r_modified_process_name row) db)
             @ [Skipping_creation (r_lca_algebraic_name row)]))
   \<and> (fst (find_activity env fw (r_ei_activity_name row) (r_loc row) (r_custom_process_name row)
             (r_modified_process_name row) db) = Some a
      \<and> eval_in env (parameter_expression_of s row) reg = Inl e \<longrightarrow>
      foreground_step env s db reg row fw =
        (fw, snd (find_activity env fw (r_ei_activity_name row) (r_loc row)
                    (r_custom_process_name row) (r_modified_process_name row) db)
             @ [Error_foreground_expression (r_lca_algebraic_name row) e]))
   \<and> (fst (find_activity env fw (r_ei_activity_name row) (r_loc row) (r_custom_process_name row)
             (r_modified_process_name row) db) = Some a
      \<and> eval_in env (parameter_expression_of s row) reg = Inr v
      \<and> newActivity env fw db (r_lca_algebraic_name row) (Val ''unit'') [(a, v)] = (Some e, fw')
      \<longrightarrow>
      foreground_step env s db reg row fw =
        (fw', snd (find_activity env fw (r_ei_activity_name row) (r_loc row)
                     (r_custom_process_name row) (r_modified_process_name row) db)
              @ [Call_newActivity db (r_lca_algebraic_name row) (Val ''unit'') [(a, v)],
                 Error_creating_activity (r_lca_algebraic_name row) e]))"
  by (intro conjI)
     (rule create_custom_activities_returns,
      rule create_foreground_returns,
      rule process_rows_continue,
      rule custom_rows_continue,
      rule foreground_rows_continue,
      rule modified_row_evaluation_fails,
      rule param_row_unsupported,
      rule param_row_try_fails,
      rule param_row_create_fails,
      rule custom_row_lookup_fails,
      rule custom_row_evaluation_fails,
      rule custom_sheet_create_fails,
      rule modified_sheet_lookup_fails,
      rule modified_sheet_lookup_none,
      rule modified_sheet_copy_fails,
      rule modified_sheet_update_fails,
      rule foreground_row_lookup_fails,
      rule foreground_row_evaluation_fails,
      rule foreground_row_create_fails)

text \<open>What the test doubles and the test rows evaluate to.\<close>

lemma resolve_wood:
  "find_activity test_agb [] (r_ei_activity_name wood_row) (r_loc wood_row)
     (r_custom_process_name wood_row) (r_modified_process_name wood_row) ''db''
   = (None, [Call_findTechAct (Val ''wood'') None,
             Failed_ecoinvent (Val ''wood'') NaN (FrameworkError ''No activity found'')])"
  by (simp add: wood_row_def run_eval)

lemma resolve_unregistered:
  "find_activity test_agb [] (r_ei_activity_name unregistered_row) (r_loc unregistered_row)
     (r_custom_process_name unregistered_row) (r_modified_process_name unregistered_row) ''db''
   = (Some ''steel'', [Call_findTechAct (Val ''steel'') None])"
  by (simp add: unregistered_row_def run_eval)

lemma resolve_steel:
  "find_activity faulty_agb [] (r_ei_activity_name steel_row) (r_loc steel_row)
     (r_custom_process_name steel_row) (r_modified_process_name steel_row) ''db''
   = (Some ''steel'', [Call_findTechAct (Val ''steel'') (Some (Val ''FR''))])"
  by (simp add: steel_row_def faulty_agb_def run_eval)

lemma row_names:
  "r_lca_algebraic_name wood_row = NaN"
  "r_lca_algebraic_name unregistered_row = NaN"
  "r_lca_algebraic_name steel_row = Val ''a''"
  by (simp_all add: wood_row_def unregistered_row_def steel_row_def)

lemma row_fields:
  "r_ei_activity_name wood_row = Val ''wood''"
  "r_lca_algebraic_name wood_row = NaN"
  "r_ei_activity_name unregistered_row = Val ''steel''"
  "r_lca_algebraic_name unregistered_row = NaN"
  "r_ei_activity_name steel_row = Val ''steel''"
  "r_lca_algebraic_name steel_row = Val ''a''"
  by (simp_all add: wood_row_def unregistered_row_def steel_row_def)

lemma row_eval:
  "parameter_expression_of ''S'' unregistered_row = ''S_7''"
  "eval_in test_agb ''S_7'' two_three_registry = Inl (NameError ''S_7'')"
  "eval_in test_agb (parameter_expression_of ''A'' unregistered_row) two_three_registry
     = Inl (NameError ''A_7'')"
  "eval_in test_agb (parameter_expression_of ''F'' unregistered_row) two_three_registry
     = Inl (NameError ''F_7'')"
  "eval_in test_agb (parameter_expression_of ''S'' steel_row) two_three_registry = Inr 2"
  "eval_in faulty_agb (parameter_expression_of ''S'' steel_row) two_three_registry = Inr 2"
  by (simp_all add: parameter_expression_of_def unregistered_row_def steel_row_def
        two_three_registry_def faulty_agb_def test_agb_def)

lemma meta_eval:
  "m_unit sheet_meta = Val ''kg''"
  "m_original_ei_activity_name failing_meta = Val ''wood''"
  "m_original_ei_activity_location failing_meta = NaN"
  "m_original_ei_activity_name ghost_meta = Val ''ghost''"
  "m_original_ei_activity_location ghost_meta = Val ''FR''"
  "m_original_ei_activity_name modified_meta = Val ''steel''"
  "m_original_ei_activity_location modified_meta = Val ''FR''"
  by (simp_all add: sheet_meta_def failing_meta_def ghost_meta_def modified_meta_def)

lemma prow_eval:
  "param_type_of test_agb unsupported_row = ''integer''"
  "param_name_of ''P'' unsupported_row = ''P_2''"
  "param_type_of test_agb enum_row = ''enum''"
  "param_name_of ''P'' enum_row = ''P_4''"
  "param_type_of faulty_agb bool_row = ''bool''"
  "param_name_of ''P'' bool_row = ''P_1''"
  "pr_default bool_row = NaN"
  by (simp_all add: param_type_of_def param_name_of_def unsupported_row_def enum_row_def
        bool_row_def blank_param_row_def faulty_agb_def test_agb_def strip_def lower_def
        is_space_def lower_char_def)

theorem failures_logged_and_run_continues_witness:
  "create_custom_activities test_agb [] two_custom_table two_custom_sheets ''db''
         two_three_registry
     = (None, [''B'', ''A''], [Processing_sheet ''A'',
        Call_findTechAct (Val ''wood'') None,
        Failed_ecoinvent (Val ''wood'') NaN (FrameworkError ''No activity found''),
        Skipping_row_unresolved 0 ''A'',
        Call_findTechAct (Val ''steel'') None,
        Error_parameter_expression 1 (NameError ''A_7''),
        Call_newActivity ''db'' (Val ''A'') (Val ''kg'') [],
        Processing_sheet ''B'',
        Call_newActivity ''db'' (Val ''B'') (Val ''kg'') [],
        Finished_all])
   \<and> create_foreground test_agb [] one_foreground ''F'' ''db'' two_three_registry
     = (None, [], [Call_findTechAct (Val ''wood'') None,
        Failed_ecoinvent (Val ''wood'') NaN (FrameworkError ''No activity found''),
        Skipping_creation NaN,
        Call_findTechAct (Val ''steel'') None,
        Error_foreground_expression NaN (NameError ''F_7'')])
   \<and> process_rows test_agb ''P'' [(0, unsupported_row), (1, bool_row)] Map.empty []
     = ([''P_1'' \<mapsto> 1], [],
        [Error_creating_parameter ''P_2''
           (ValueError ''Unsupported parameter type: integer''),
         Call_newBoolParam ''P_1'' NaN,
         Parameter_created ''P_1''])
   \<and> custom_rows test_agb [] ''db'' two_three_registry ''A'' [(0, wood_row), (1, unregistered_row)] []
     = ([], [Call_findTechAct (Val ''wood'') None,
        Failed_ecoinvent (Val ''wood'') NaN (FrameworkError ''No activity found''),
        Skipping_row_unresolved 0 ''A'',
        Call_findTechAct (Val ''steel'') None,
        Error_parameter_expression 1 (NameError ''A_7'')])
   \<and> foreground_rows test_agb ''F'' ''db'' two_three_registry [(0, wood_row), (1, unregistered_row)] []
     = ([], [Call_findTechAct (Val ''wood'') None,
        Failed_ecoinvent (Val ''wood'') NaN (FrameworkError ''No activity found''),
        Skipping_creation NaN,
        Call_findTechAct (Val ''steel'') None,
        Error_foreground_expression NaN (NameError ''F_7'')])
   \<and> modified_rows test_agb two_three_registry ''S'' [(0, unregistered_row), (1, steel_row)] []
     = ([(Val ''steel'', 2)],
        [Error_evaluating ''S_7'' (Val ''steel'') (NameError ''S_7''),
         Evaluated_amount (Val ''steel'') 2])
   \<and> param_step test_agb ''P'' unsupported_row Map.empty []
     = (Map.empty, [],
        [Error_creating_parameter ''P_2''
           (ValueError ''Unsupported parameter type: integer'')])
   \<and> param_step test_agb ''P'' enum_row Map.empty []
     = (Map.empty, [], [Error_creating_parameter ''P_4'' (NameError ''abc'')])
   \<and> param_step faulty_agb ''P'' bool_row Map.empty []
     = (Map.empty, [],
        [Call_newBoolParam ''P_1'' NaN,
         Error_creating_parameter ''P_1'' (FrameworkError ''parameter'')])
   \<and> custom_step test_agb [] ''db'' two_three_registry ''A'' 0 wood_row []
     = ([], [Call_findTechAct (Val ''wood'') None,
        Failed_ecoinvent (Val ''wood'') NaN (FrameworkError ''No activity found''),
        Skipping_row_unresolved 0 ''A''])
   \<and> custom_step test_agb [] ''db'' two_three_registry ''A'' 1 unregistered_row []
     = ([], [Call_findTechAct (Val ''steel'') None,
        Error_parameter_expression 1 (NameError ''A_7'')])
   \<and> custom_sheet faulty_agb [] ''db'' two_three_registry ''K'' sheet_meta []
     = ([], [Processing_sheet ''K'',
        Call_newActivity ''db'' (Val ''K'') (Val ''kg'') [],
        Error_creating_custom ''K'' (FrameworkError ''activity'')])
   \<and> modified_sheet test_agb [] ''db'' two_three_registry ''C'' failing_meta one_modified_sheet
     = ([], [Call_findTechAct (Val ''wood'') (Some NaN),
        Error_copying_or_updating ''C'' (FrameworkError ''No activity found'')])
   \<and> modified_sheet faulty_agb [] ''db'' two_three_registry ''G'' ghost_meta one_modified_sheet
     = ([], [Call_findTechAct (Val ''ghost'') (Some (Val ''FR'')),
        Skipping_copy ''G''])
   \<and> modified_sheet faulty_agb [] ''db'' two_three_registry ''X'' modified_meta one_modified_sheet
     = ([], [Call_findTechAct (Val ''steel'') (Some (Val ''FR'')),
        Call_copyActivity ''db'' ''steel'' ''X'',
        Error_copying_or_updating ''X'' (FrameworkError ''copy'')])
   \<and> modified_sheet faulty_agb [] ''db'' two_three_registry ''S'' modified_meta one_modified_sheet
     = ([''S''], [Call_findTechAct (Val ''steel'') (Some (Val ''FR'')),
        Call_copyActivity ''db'' ''steel'' ''S'',
        Copied_activity ''S'',
        Evaluated_amount (Val ''steel'') 2,
        Call_updateExchanges ''S'' [(Val ''steel'', 2)],
        Error_updating ''S'' (FrameworkError ''update'')])
   \<and> foreground_step test_agb ''F'' ''db'' two_three_registry wood_row []
     = ([], [Call_findTechAct (Val ''wood'') None,
        Failed_ecoinvent (Val ''wood'') NaN (FrameworkError ''No activity found''),
        Skipping_creation NaN])
   \<and> foreground_step test_agb ''F'' ''db'' two_three_registry unregistered_row []
     = ([], [Call_findTechAct (Val ''steel'') None,
        Error_foreground_expression NaN (NameError ''F_7'')])
   \<and> foreground_step faulty_agb ''S'' ''db'' two_three_registry steel_row []
     = ([], [Call_findTechAct (Val ''steel'') (Some (Val ''FR'')),
        Call_newActivity ''db'' (Val ''a'') (Val ''unit'') [(''steel'', 2)],
        Error_creating_activity (Val ''a'') (FrameworkError ''activity'')])"
proof -
  have h_k1:
    "fst (find_activity test_agb [] (r_ei_activity_name wood_row) (r_loc wood_row)
            (r_custom_process_name wood_row) (r_modified_process_name wood_row) ''db'') = None"
    by (simp add: resolve_wood)
  from failures_logged_and_run_continues
         [where env = test_agb and reg = two_three_registry and s = "''A''" and index = 0 and acc = "[]",
          THEN conjunct2, THEN conjunct2, THEN conjunct2, THEN conjunct2, THEN conjunct2,
          THEN conjunct2, THEN conjunct2, THEN conjunct2, THEN conjunct2, THEN conjunct1, THEN mp, OF h_k1]
  have k1:
    "custom_step test_agb [] ''db'' two_three_registry ''A'' 0 wood_row []
     = ([], [Call_findTechAct (Val ''wood'') None,
        Failed_ecoinvent (Val ''wood'') NaN (FrameworkError ''No activity found''),
        Skipping_row_unresolved 0 ''A''])"
    by (simp add: resolve_wood)
  have h_k2:
    "fst (find_activity test_agb [] (r_ei_activity_name unregistered_row) (r_loc unregistered_row)
            (r_custom_process_name unregistered_row) (r_modified_process_name unregistered_row) ''db'') = Some ''steel''
     \<and> eval_in test_agb (parameter_expression_of ''A'' unregistered_row) two_three_registry
         = Inl (NameError ''A_7'')"
    by (simp add: resolve_unregistered row_eval)
  from failures_logged_and_run_continues
         [where index = 1 and acc = "[]",
          THEN conjunct2, THEN conjunct2, THEN conjunct2, THEN conjunct2, THEN conjunct2,
          THEN conjunct2, THEN conjunct2, THEN conjunct2, THEN conjunct2, THEN conjunct2,
          THEN conjunct1, THEN mp, OF h_k2]
  have k2:
    "custom_step test_agb [] ''db'' two_three_registry ''A'' 1 unregistered_row []
     = ([], [Call_findTechAct (Val ''steel'') None,
        Error_parameter_expression 1 (NameError ''A_7'')])"
    by (simp add: resolve_unregistered)
  have h_k3:
    "custom_rows faulty_agb [] ''db'' two_three_registry ''K'' [] [] = ([], [])
     \<and> newActivity faulty_agb [] ''db'' (Val ''K'') (m_unit sheet_meta) []
         = (Some (FrameworkError ''activity''), [])"
    by (simp add: faulty_agb_def test_agb_def)
  from failures_logged_and_run_continues
         [where meta = sheet_meta,
          THEN conjunct2, THEN conjunct2, THEN conjunct2, THEN conjunct2, THEN conjunct2,
          THEN conjunct2, THEN conjunct2, THEN conjunct2, THEN conjunct2, THEN conjunct2,
          THEN conjunct2, THEN conjunct1, THEN mp, OF h_k3]
  have k3:
    "custom_sheet faulty_agb [] ''db'' two_three_registry ''K'' sheet_meta []
     = ([], [Processing_sheet ''K'',
        Call_newActivity ''db'' (Val ''K'') (Val ''kg'') [],
        Error_creating_custom ''K'' (FrameworkError ''activity'')])"
    by (simp add: meta_eval)
  have h_f1:
    "fst (find_activity test_agb [] (r_ei_activity_name wood_row) (r_loc wood_row)
            (r_custom_process_name wood_row) (r_modified_process_name wood_row) ''db'') = None"
    by (simp add: resolve_wood)
  from failures_logged_and_run_continues
         [where env = test_agb and reg = two_three_registry and s = "''F''",
          THEN conjunct2, THEN conjunct2, THEN conjunct2, THEN conjunct2, THEN conjunct2,
          THEN conjunct2, THEN conjunct2, THEN conjunct2, THEN conjunct2, THEN conjunct2,
          THEN conjunct2, THEN conjunct2, THEN conjunct2, THEN conjunct2, THEN conjunct2,
          THEN conjunct2, THEN conjunct1, THEN mp, OF h_f1]
  have f1:
    "foreground_step test_agb ''F'' ''db'' two_three_registry wood_row []
     = ([], [Call_findTechAct (Val ''wood'') None,
        Failed_ecoinvent (Val ''wood'') NaN (FrameworkError ''No activity found''),
        Skipping_creation NaN])"
    by (simp add: resolve_wood row_names)
  have h_f2:
    "fst (find_activity test_agb [] (r_ei_activity_name unregistered_row) (r_loc unregistered_row)
            (r_custom_process_name unregistered_row) (r_modified_process_name unregistered_row) ''db'') = Some ''steel''
     \<and> eval_in test_agb (parameter_expression_of ''F'' unregistered_row) two_three_registry
         = Inl (NameError ''F_7'')"
    by (simp add: resolve_unregistered row_eval)
  from failures_logged_and_run_continues
         [where env = test_agb,
          THEN conjunct2, THEN conjunct2, THEN conjunct2, THEN conjunct2, THEN conjunct2,
          THEN conjunct2, THEN conjunct2, THEN conjunct2, THEN conjunct2, THEN conjunct2,
          THEN conjunct2, THEN conjunct2, THEN conjunct2, THEN conjunct2, THEN conjunct2,
          THEN conjunct2, THEN conjunct2, THEN conjunct1, THEN mp, OF h_f2]
  have f2:
    "foreground_step test_agb ''F'' ''db'' two_three_registry unregistered_row []
     = ([], [Call_findTechAct (Val ''steel'') None,
        Error_foreground_expression NaN (NameError ''F_7'')])"
    by (simp add: resolve_unregistered row_names)
  have h_f3:
    "fst (find_activity faulty_agb [] (r_ei_activity_name steel_row) (r_loc steel_row)
            (r_custom_process_name steel_row) (r_modified_process_name steel_row) ''db'') = Some ''steel''
     \<and> eval_in faulty_agb (parameter_expression_of ''S'' steel_row) two_three_registry = Inr 2
     \<and> newActivity faulty_agb [] ''db'' (r_lca_algebraic_name steel_row) (Val ''unit'')
           [(''steel'', 2)]
         = (Some (FrameworkError ''activity''), [])"
    by (intro conjI)
       (simp add: resolve_steel, simp add: row_eval,
        simp add: row_names faulty_agb_def test_agb_def)
  from failures_logged_and_run_continues
         [where env = faulty_agb,
          THEN conjunct2, THEN conjunct2, THEN conjunct2, THEN conjunct2, THEN conjunct2,
          THEN conjunct2, THEN conjunct2, THEN conjunct2, THEN conjunct2, THEN conjunct2,
          THEN conjunct2, THEN conjunct2, THEN conjunct2, THEN conjunct2, THEN conjunct2,
          THEN conjunct2, THEN conjunct2, THEN conjunct2, THEN mp, OF h_f3]
  have f3:
    "foreground_step faulty_agb ''S'' ''db'' two_three_registry steel_row []
     = ([], [Call_findTechAct (Val ''steel'') (Some (Val ''FR'')),
        Call_newActivity ''db'' (Val ''a'') (Val ''unit'') [(''steel'', 2)],
        Error_creating_activity (Val ''a'') (FrameworkError ''activity'')])"
    by (simp add: resolve_steel row_names)
  have h_m1:
    "findTechAct test_agb [] (m_original_ei_activity_name failing_meta)
         (Some (m_original_ei_activity_location failing_meta))
       = Inl (FrameworkError ''No activity found'')"
    by (simp add: meta_eval test_agb_def)
  from failures_logged_and_run_continues
         [where db = "''db''" and reg = two_three_registry and name = "''C''" and dfs = one_modified_sheet,
          THEN conjunct2, THEN conjunct2, THEN conjunct2, THEN conjunct2, THEN conjunct2,
          THEN conjunct2, THEN conjunct2, THEN conjunct2, THEN conjunct2, THEN conjunct2,
          THEN conjunct2, THEN conjunct2, THEN conjunct1, THEN mp, OF h_m1]
  have m1:
    "modified_sheet test_agb [] ''db'' two_three_registry ''C'' failing_meta one_modified_sheet
     = ([], [Call_findTechAct (Val ''wood'') (Some NaN),
        Error_copying_or_updating ''C'' (FrameworkError ''No activity found'')])"
    by (simp add: meta_eval)
  have h_m2:
    "findTechAct faulty_agb [] (m_original_ei_activity_name ghost_meta)
         (Some (m_original_ei_activity_location ghost_meta))
       = Inr None"
    by (simp add: meta_eval faulty_agb_def test_agb_def)
  from failures_logged_and_run_continues
         [where db = "''db''" and reg = two_three_registry and name = "''G''" and dfs = one_modified_sheet,
          THEN conjunct2, THEN conjunct2, THEN conjunct2, THEN conjunct2, THEN conjunct2,
          THEN conjunct2, THEN conjunct2, THEN conjunct2, THEN conjunct2, THEN conjunct2,
          THEN conjunct2, THEN conjunct2, THEN conjunct2, THEN conjunct1, THEN mp, OF h_m2]
  have m2:
    "modified_sheet faulty_agb [] ''db'' two_three_registry ''G'' ghost_meta one_modified_sheet
     = ([], [Call_findTechAct (Val ''ghost'') (Some (Val ''FR'')),
        Skipping_copy ''G''])"
    by (simp add: meta_eval)
  have h_m3:
    "findTechAct faulty_agb [] (m_original_ei_activity_name modified_meta)
         (Some (m_original_ei_activity_location modified_meta))
       = Inr (Some ''steel'')
     \<and> copyActivity faulty_agb [] ''db'' ''steel'' ''X''
         = (Inl (FrameworkError ''copy''), [])"
    by (simp add: meta_eval faulty_agb_def test_agb_def)
  from failures_logged_and_run_continues
         [where reg = two_three_registry and dfs = one_modified_sheet,
          THEN conjunct2, THEN conjunct2, THEN conjunct2, THEN conjunct2, THEN conjunct2,
          THEN conjunct2, THEN conjunct2, THEN conjunct2, THEN conjunct2, THEN conjunct2,
          THEN conjunct2, THEN conjunct2, THEN conjunct2, THEN conjunct2, THEN conjunct1, THEN mp, OF h_m3]
  have m3:
    "modified_sheet faulty_agb [] ''db'' two_three_registry ''X'' modified_meta one_modified_sheet
     = ([], [Call_findTechAct (Val ''steel'') (Some (Val ''FR'')),
        Call_copyActivity ''db'' ''steel'' ''X'',
        Error_copying_or_updating ''X'' (FrameworkError ''copy'')])"
    by (simp add: meta_eval)
  have h_m4:
    "findTechAct faulty_agb [] (m_original_ei_activity_name modified_meta)
         (Some (m_original_ei_activity_location modified_meta))
       = Inr (Some ''steel'')
     \<and> copyActivity faulty_agb [] ''db'' ''steel'' ''S'' = (Inr ''S'', [''S''])
     \<and> one_modified_sheet ''S'' = Some [(0, steel_row)]
     \<and> modified_rows faulty_agb two_three_registry ''S'' [(0, steel_row)] []
         = ([(Val ''steel'', 2)], [Evaluated_amount (Val ''steel'') 2])
     \<and> updateExchanges faulty_agb [''S''] ''S'' [(Val ''steel'', 2)]
         = (Some (FrameworkError ''update''), [''S''])"
    by (intro conjI)
       (simp add: meta_eval faulty_agb_def test_agb_def,
        simp add: faulty_agb_def test_agb_def,
        simp add: one_modified_sheet_def,
        simp add: Let_def row_eval row_fields,
        simp add: faulty_agb_def test_agb_def)
  from failures_logged_and_run_continues
         [where env = faulty_agb and dfs = one_modified_sheet and name = "''S''",
          THEN conjunct2, THEN conjunct2, THEN conjunct2, THEN conjunct2, THEN conjunct2,
          THEN conjunct2, THEN conjunct2, THEN conjunct2, THEN conjunct2, THEN conjunct2,
          THEN conjunct2, THEN conjunct2, THEN conjunct2, THEN conjunct2, THEN conjunct2,
          THEN conjunct1, THEN mp, OF h_m4]
  have m4:
    "modified_sheet faulty_agb [] ''db'' two_three_registry ''S'' modified_meta one_modified_sheet
     = ([''S''], [Call_findTechAct (Val ''steel'') (Some (Val ''FR'')),
        Call_copyActivity ''db'' ''steel'' ''S'',
        Copied_activity ''S'',
        Evaluated_amount (Val ''steel'') 2,
        Call_updateExchanges ''S'' [(Val ''steel'', 2)],
        Error_updating ''S'' (FrameworkError ''update'')])"
    by (simp add: meta_eval)
  have h_p1:
    "param_type_of test_agb unsupported_row \<notin> {''float'', ''bool'', ''enum''}"
    by (simp add: prow_eval)
  from failures_logged_and_run_continues
         [where s = "''P''" and preg = Map.empty and fw = "[]",
          THEN conjunct2, THEN conjunct2, THEN conjunct2, THEN conjunct2, THEN conjunct2,
          THEN conjunct2, THEN conjunct1, THEN mp, OF h_p1]
  have p1:
    "param_step test_agb ''P'' unsupported_row Map.empty []
     = (Map.empty, [],
        [Error_creating_parameter ''P_2''
           (ValueError ''Unsupported parameter type: integer'')])"
    by (simp add: prow_eval)
  have h_p2:
    "create_param test_agb [] (param_name_of ''P'' enum_row) (param_type_of test_agb enum_row)
       enum_row
     = (Inl (NameError ''abc''), [], [])"
    by (simp add: param_eval enum_row_def)
  from failures_logged_and_run_continues
         [where preg = Map.empty,
          THEN conjunct2, THEN conjunct2, THEN conjunct2, THEN conjunct2, THEN conjunct2,
          THEN conjunct2, THEN conjunct2, THEN conjunct1, THEN mp, OF h_p2]
  have p2:
    "param_step test_agb ''P'' enum_row Map.empty []
     = (Map.empty, [], [Error_creating_parameter ''P_4'' (NameError ''abc'')])"
    by (simp add: prow_eval)
  have h_p3:
    "param_type_of faulty_agb bool_row = ''bool''
     \<and> newBoolParam faulty_agb [] (param_name_of ''P'' bool_row) (pr_default bool_row)
         = (Inl (FrameworkError ''parameter''), [])"
    by (intro conjI)
       (simp add: prow_eval, simp add: faulty_agb_def test_agb_def)
  from failures_logged_and_run_continues
         [where preg = Map.empty,
          THEN conjunct2, THEN conjunct2, THEN conjunct2, THEN conjunct2, THEN conjunct2,
          THEN conjunct2, THEN conjunct2, THEN conjunct2, THEN conjunct1, THEN mp, OF h_p3]
  have p3:
    "param_step faulty_agb ''P'' bool_row Map.empty []
     = (Map.empty, [],
        [Call_newBoolParam ''P_1'' NaN,
         Error_creating_parameter ''P_1'' (FrameworkError ''parameter'')])"
    by (simp add: prow_eval)
  have h_r1:
    "eval_in test_agb (parameter_expression_of ''S'' unregistered_row) two_three_registry
     = Inl (NameError ''S_7'')"
    by (simp add: row_eval)
  have r1a: "modified_rows test_agb two_three_registry ''S'' [] [] = ([], [])"
    by simp
  have r1b: "modified_rows test_agb two_three_registry ''S'' [(1, steel_row)] []
               = ([(Val ''steel'', 2)], [Evaluated_amount (Val ''steel'') 2])"
    by (simp add: Let_def row_eval row_fields)
  from failures_logged_and_run_continues
         [where env = test_agb and pre = "[]" and index = 0 and post = "[(1, steel_row)]"
           and d = "[]",
          THEN conjunct2, THEN conjunct2, THEN conjunct2, THEN conjunct2, THEN conjunct2,
          THEN conjunct1, THEN mp, OF h_r1]
  have r1:
    "modified_rows test_agb two_three_registry ''S'' [(0, unregistered_row), (1, steel_row)] []
     = ([(Val ''steel'', 2)],
        [Error_evaluating ''S_7'' (Val ''steel'') (NameError ''S_7''),
         Evaluated_amount (Val ''steel'') 2])"
    by (simp only: r1a r1b row_eval row_fields prod.case append.simps)
  have h_r2:
    "(\<forall>(i, r) \<in> set []. notna (r_ei_activity_name r))
     \<and> notna (r_ei_activity_name wood_row)"
    by (simp add: row_fields)
  have r2a: "custom_rows test_agb [] ''db'' two_three_registry ''A'' [] [] = ([], [])"
    by simp
  have r2b: "custom_rows test_agb [] ''db'' two_three_registry ''A'' [(1, unregistered_row)] []
               = ([], [Call_findTechAct (Val ''steel'') None,
        Error_parameter_expression 1 (NameError ''A_7'')])"
    using k2 by (simp add: row_fields)
  from failures_logged_and_run_continues
         [where env = test_agb and fw = "[]" and db = "''db''" and reg = two_three_registry and s = "''A''"
           and pre = "[]" and index = 0 and post = "[(1, unregistered_row)]"
           and acc = "[]",
          THEN conjunct2, THEN conjunct2, THEN conjunct2, THEN conjunct1, THEN mp, OF h_r2]
  have r2:
    "custom_rows test_agb [] ''db'' two_three_registry ''A'' [(0, wood_row), (1, unregistered_row)] []
     = ([], [Call_findTechAct (Val ''wood'') None,
        Failed_ecoinvent (Val ''wood'') NaN (FrameworkError ''No activity found''),
        Skipping_row_unresolved 0 ''A'',
        Call_findTechAct (Val ''steel'') None,
        Error_parameter_expression 1 (NameError ''A_7'')])"
    by (simp only: r2a r2b k1 prod.case append.simps)
  have h_r3:
    "(\<forall>(i, r) \<in> set []. notna (r_ei_activity_name r))
     \<and> notna (r_ei_activity_name wood_row)"
    by (simp add: row_fields)
  have r3a: "foreground_rows test_agb ''F'' ''db'' two_three_registry [] [] = ([], [])"
    by simp
  have r3b: "foreground_rows test_agb ''F'' ''db'' two_three_registry [(1, unregistered_row)] []
               = ([], [Call_findTechAct (Val ''steel'') None,
        Error_foreground_expression NaN (NameError ''F_7'')])"
    using f2 by (simp add: row_fields)
  from failures_logged_and_run_continues
         [where env = test_agb and fw = "[]" and db = "''db''" and reg = two_three_registry and s = "''F''"
           and pre = "[]" and index = 0 and post = "[(1, unregistered_row)]",
          THEN conjunct2, THEN conjunct2, THEN conjunct2, THEN conjunct2, THEN conjunct1, THEN mp, OF h_r3]
  have r3:
    "foreground_rows test_agb ''F'' ''db'' two_three_registry [(0, wood_row), (1, unregistered_row)] []
     = ([], [Call_findTechAct (Val ''wood'') None,
        Failed_ecoinvent (Val ''wood'') NaN (FrameworkError ''No activity found''),
        Skipping_creation NaN,
        Call_findTechAct (Val ''steel'') None,
        Error_foreground_expression NaN (NameError ''F_7'')])"
    by (simp only: r3a r3b f1 prod.case append.simps)
  have h_r4:
    "(\<forall>(i, r) \<in> set []. notna (pr_ei_activity_name r))
     \<and> notna (pr_ei_activity_name unsupported_row)"
    by (simp add: unsupported_row_def blank_param_row_def)
  have r4a: "process_rows test_agb ''P'' [] Map.empty [] = (Map.empty, [], [])"
    by simp
  have r4b: "process_rows test_agb ''P'' [(1, bool_row)] Map.empty []
               = ([''P_1'' \<mapsto> 1], [],
                  [Call_newBoolParam ''P_1'' NaN, Parameter_created ''P_1''])"
    by (simp add: param_eval bool_row_def)
  from failures_logged_and_run_continues
         [where env = test_agb and fw = "[]" and s = "''P''" and preg = Map.empty
           and ppre = "[]" and index = 0 and ppost = "[(1, bool_row)]",
          THEN conjunct2, THEN conjunct2, THEN conjunct1, THEN mp, OF h_r4]
  have r4:
    "process_rows test_agb ''P'' [(0, unsupported_row), (1, bool_row)] Map.empty []
     = ([''P_1'' \<mapsto> 1], [],
        [Error_creating_parameter ''P_2''
           (ValueError ''Unsupported parameter type: integer''),
         Call_newBoolParam ''P_1'' NaN,
         Parameter_created ''P_1''])"
    by (simp only: r4a r4b p1 prod.case append.simps)
  have h_g1:
    "one_foreground ''F'' = Some [(0, wood_row), (1, unregistered_row)]"
    by (simp add: one_foreground_def)
  from failures_logged_and_run_continues
         [where env = test_agb and fw = "[]" and db = "''db''" and reg = two_three_registry
           and foregrounds_All = one_foreground and selected = "''F''",
          THEN conjunct2, THEN conjunct1, THEN mp, OF h_g1]
  have g1:
    "create_foreground test_agb [] one_foreground ''F'' ''db'' two_three_registry
     = (None, [], [Call_findTechAct (Val ''wood'') None,
        Failed_ecoinvent (Val ''wood'') NaN (FrameworkError ''No activity found''),
        Skipping_creation NaN,
        Call_findTechAct (Val ''steel'') None,
        Error_foreground_expression NaN (NameError ''F_7'')])"
    by (simp only: r3 prod.case)
  have h_g2:
    "distinct (map fst two_custom_table)
     \<and> (\<forall>(n, m) \<in> set two_custom_table.
            two_custom_sheets n = Some (two_custom_sheet_of n))"
    by (simp add: two_custom_table_def two_custom_sheets_def two_custom_sheet_of_def)
  have g2a: "sort_key (\<lambda>(sheet_name, meta). m_priority meta) two_custom_table
               = [(''A'', sheet_meta), (''B'', sheet_meta\<lparr> m_priority := 2 \<rparr>)]"
    by (simp add: two_custom_table_def sheet_meta_def)
  have g2b: "run_sheets test_agb ''db'' two_three_registry two_custom_sheets two_custom_sheet_of
                 [(''A'', sheet_meta), (''B'', sheet_meta\<lparr> m_priority := 2 \<rparr>)] []
               = ([''B'', ''A''], [Processing_sheet ''A'',
        Call_findTechAct (Val ''wood'') None,
        Failed_ecoinvent (Val ''wood'') NaN (FrameworkError ''No activity found''),
        Skipping_row_unresolved 0 ''A'',
        Call_findTechAct (Val ''steel'') None,
        Error_parameter_expression 1 (NameError ''A_7''),
        Call_newActivity ''db'' (Val ''A'') (Val ''kg'') [],
        Processing_sheet ''B'',
        Call_newActivity ''db'' (Val ''B'') (Val ''kg'') []])"
    by (simp add: run_eval two_custom_sheet_of_def sheet_meta_def wood_row_def
          unregistered_row_def two_three_registry_def)
  from failures_logged_and_run_continues
         [where env = test_agb and fw = "[]" and db = "''db''" and reg = two_three_registry
           and table = two_custom_table and dfs = two_custom_sheets
           and sheet_of = two_custom_sheet_of,
          THEN conjunct1, THEN mp, OF h_g2]
  have g2:
    "create_custom_activities test_agb [] two_custom_table two_custom_sheets ''db''
         two_three_registry
     = (None, [''B'', ''A''], [Processing_sheet ''A'',
        Call_findTechAct (Val ''wood'') None,
        Failed_ecoinvent (Val ''wood'') NaN (FrameworkError ''No activity found''),
        Skipping_row_unresolved 0 ''A'',
        Call_findTechAct (Val ''steel'') None,
        Error_parameter_expression 1 (NameError ''A_7''),
        Call_newActivity ''db'' (Val ''A'') (Val ''kg'') [],
        Processing_sheet ''B'',
        Call_newActivity ''db'' (Val ''B'') (Val ''kg'') [],
        Finished_all])"
    by (simp only: g2a g2b prod.case append.simps)
  show ?thesis
    by (intro conjI)
       (rule g2,
        rule g1,
        rule r4,
        rule r2,
        rule r3,
        rule r1,
        rule p1,
        rule p2,
        rule p3,
        rule k1,
        rule k2,
        rule k3,
        rule m1,
        rule m2,
        rule m3,
        rule m4,
        rule f1,
        rule f2,
        rule f3)
qed

text \<open>
  Claim C5 as stated fails: the table names the sheets \<open>A\<close> and \<open>B\<close> and the
  dictionary of data frames holds only \<open>A\<close>. The builder logs the failed lookup and
  the failed expression of the rows of \<open>A\<close>, creates \<open>A\<close>, and then the read of
  \<open>B\<close> (line 107, outside every \<^verbatim>\<open>try\<close>) raises \<^verbatim>\<open>KeyError\<close>, which
  leaves the function: the closing line is not printed.
\<close>

theorem missing_sheet_halts_the_run:
  "create_custom_activities test_agb [] two_custom_table lone_custom_sheet ''db''
     two_three_registry
   = (Some (KeyError ''B''), [''A''],
      [Processing_sheet ''A'',
       Call_findTechAct (Val ''wood'') None,
       Failed_ecoinvent (Val ''wood'') NaN (FrameworkError ''No activity found''),
       Skipping_row_unresolved 0 ''A'',
       Call_findTechAct (Val ''steel'') None,
       Error_parameter_expression 1 (NameError ''A_7''),
       Call_newActivity ''db'' (Val ''A'') (Val ''kg'') []])"
  by (simp add: create_custom_activities_def sorted_sheets_def loc_def two_custom_table_def
        lone_custom_sheet_def wood_row_def unregistered_row_def sheet_meta_def
        two_three_registry_def run_eval)

end
